theory Spec2Isabelle
  imports Complex_Main
begin

section \<open>The box collider of Source/Engine/Physics/Colliders/BoxCollider.cpp\<close>

text \<open>
  A shallow embedding of \<^verbatim>\<open>BoxCollider\<close>: the size setter, the bounds cache, the geometry
  descriptor and the ray test. The components of \<^verbatim>\<open>Float3\<close>, \<^verbatim>\<open>Vector3\<close> and \<^verbatim>\<open>Real\<close> are
  modelled as real numbers: the literals \<^verbatim>\<open>0.5f\<close> and \<^verbatim>\<open>0.001f\<close> are the reals \<open>1/2\<close> and
  \<open>1/1000\<close>, and rounding, infinities and NaN are outside the model.
\<close>

subsection \<open>Vectors\<close>

text \<open>
  Modelled from the spec: the vector type \<^verbatim>\<open>Float3\<close> is declared in a header that is not in
  src/. Its operators work on each component, as the spec describes them for
  \<^verbatim>\<open>GetGeometry\<close> ("per-axis").
\<close>

record Float3 =
  X :: real
  Y :: real
  Z :: real

definition Float3_splat :: "real \<Rightarrow> Float3" where
  \<comment> \<open>Modelled from the spec: the constructor \<^verbatim>\<open>Float3(float xyz)\<close>, all components equal.\<close>
  "Float3_splat v = \<lparr>X = v, Y = v, Z = v\<rparr>"

definition Float3_mul :: "Float3 \<Rightarrow> Float3 \<Rightarrow> Float3" where
  \<comment> \<open>Modelled from the spec: \<^verbatim>\<open>a * b\<close>, componentwise.\<close>
  "Float3_mul a b = \<lparr>X = X a * X b, Y = Y a * Y b, Z = Z a * Z b\<rparr>"

definition Float3_scale :: "Float3 \<Rightarrow> real \<Rightarrow> Float3" where
  \<comment> \<open>Modelled from the spec: \<^verbatim>\<open>a * s\<close> for a scalar \<open>s\<close>.\<close>
  "Float3_scale a s = \<lparr>X = X a * s, Y = Y a * s, Z = Z a * s\<rparr>"

definition Float3_add :: "Float3 \<Rightarrow> Float3 \<Rightarrow> Float3" where
  \<comment> \<open>Modelled from the spec: \<^verbatim>\<open>a + b\<close>.\<close>
  "Float3_add a b = \<lparr>X = X a + X b, Y = Y a + Y b, Z = Z a + Z b\<rparr>"

definition Float3_sub :: "Float3 \<Rightarrow> Float3 \<Rightarrow> Float3" where
  \<comment> \<open>Modelled from the spec: \<^verbatim>\<open>a - b\<close>.\<close>
  "Float3_sub a b = \<lparr>X = X a - X b, Y = Y a - Y b, Z = Z a - Z b\<rparr>"

definition Float3_neg :: "Float3 \<Rightarrow> Float3" where
  \<comment> \<open>Modelled from the spec: \<^verbatim>\<open>-a\<close>.\<close>
  "Float3_neg a = \<lparr>X = - X a, Y = - Y a, Z = - Z a\<rparr>"

definition GetAbsolute :: "Float3 \<Rightarrow> Float3" where
  \<comment> \<open>Modelled from the spec: the absolute value on each axis.\<close>
  "GetAbsolute a = \<lparr>X = \<bar>X a\<bar>, Y = \<bar>Y a\<bar>, Z = \<bar>Z a\<bar>\<rparr>"

definition Float3_Max :: "Float3 \<Rightarrow> Float3 \<Rightarrow> Float3" where
  \<comment> \<open>Modelled from the spec: the larger value on each axis.\<close>
  "Float3_Max a b = \<lparr>X = max (X a) (X b), Y = max (Y a) (Y b), Z = max (Z a) (Z b)\<rparr>"

definition Float3_Min :: "Float3 \<Rightarrow> Float3 \<Rightarrow> Float3" where
  \<comment> \<open>Modelled from the spec: the smaller value on each axis.\<close>
  "Float3_Min a b = \<lparr>X = min (X a) (X b), Y = min (Y a) (Y b), Z = min (Z a) (Z b)\<rparr>"

subsection \<open>The collision shape descriptor\<close>

datatype CollisionShape = BoxShape Float3
  \<comment> \<open>\<^verbatim>\<open>collision.SetBox(halfExtents)\<close>: a box given by its half-extents\<close>

fun HalfExtents :: "CollisionShape \<Rightarrow> Float3" where
  "HalfExtents (BoxShape h) = h"

subsection \<open>Rotations and rigid transforms\<close>

record Quaternion =
  QX :: real
  QY :: real
  QZ :: real
  QW :: real

definition Quaternion_Identity :: Quaternion where
  \<comment> \<open>Modelled from the spec: the quaternion type is not in src/. No rotation.\<close>
  "Quaternion_Identity = \<lparr>QX = 0, QY = 0, QZ = 0, QW = 1\<rparr>"

definition Conjugated :: "Quaternion \<Rightarrow> Quaternion" where
  \<comment> \<open>Modelled from the spec: the quaternion type is not in src/. The opposite rotation.\<close>
  "Conjugated q = \<lparr>QX = - QX q, QY = - QY q, QZ = - QZ q, QW = QW q\<rparr>"

definition Quaternion_Multiply :: "Quaternion \<Rightarrow> Quaternion \<Rightarrow> Quaternion" where
  \<comment> \<open>Modelled from the spec: the quaternion type is not in src/. The product of two
      rotations, as the Hamilton product.\<close>
  "Quaternion_Multiply a b =
     \<lparr>QX = QW a * QX b + QX a * QW b + QY a * QZ b - QZ a * QY b,
      QY = QW a * QY b - QX a * QZ b + QY a * QW b + QZ a * QX b,
      QZ = QW a * QZ b + QX a * QY b - QY a * QX b + QZ a * QW b,
      QW = QW a * QW b - QX a * QX b - QY a * QY b - QZ a * QZ b\<rparr>"

definition IsNormalized :: "Quaternion \<Rightarrow> bool" where
  \<comment> \<open>a quaternion is a rotation when it has unit length\<close>
  "IsNormalized q \<longleftrightarrow> QX q * QX q + QY q * QY q + QZ q * QZ q + QW q * QW q = 1"

definition Float3_Transform :: "Float3 \<Rightarrow> Quaternion \<Rightarrow> Float3" where
  \<comment> \<open>Modelled from the spec: the quaternion type is not in src/. The vector \<open>v\<close> rotated
      by \<open>q\<close> (\<^verbatim>\<open>orientation * vector\<close> in the source), by the rotation matrix of \<open>q\<close>.\<close>
  "Float3_Transform v q =
     (let xx = QX q * QX q; yy = QY q * QY q; zz = QZ q * QZ q;
          xy = QX q * QY q; xz = QX q * QZ q; yz = QY q * QZ q;
          wx = QW q * QX q; wy = QW q * QY q; wz = QW q * QZ q
      in \<lparr>X = X v * (1 - 2 * (yy + zz)) + Y v * (2 * (xy - wz)) + Z v * (2 * (xz + wy)),
          Y = X v * (2 * (xy + wz)) + Y v * (1 - 2 * (xx + zz)) + Z v * (2 * (yz - wx)),
          Z = X v * (2 * (xz - wy)) + Y v * (2 * (yz + wx)) + Z v * (1 - 2 * (xx + yy))\<rparr>)"

record Transform =
  Translation :: Float3
  Orientation :: Quaternion

text \<open>
  Modelled from the spec: the transform type is not in src/. The spec's data model gives the
  collider's transform as a rigid transform, position and rotation, with the scale kept
  apart in \<^verbatim>\<open>_cachedScale\<close>.
\<close>

definition LocalToWorld :: "Transform \<Rightarrow> Float3 \<Rightarrow> Float3" where
  \<comment> \<open>Modelled from the spec: rotate, then translate.\<close>
  "LocalToWorld t p = Float3_add (Float3_Transform p (Orientation t)) (Translation t)"

definition LocalToWorldVector :: "Transform \<Rightarrow> Float3 \<Rightarrow> Float3" where
  \<comment> \<open>Modelled from the spec: a direction is rotated only.\<close>
  "LocalToWorldVector t v = Float3_Transform v (Orientation t)"

definition WorldToLocal :: "Transform \<Rightarrow> Float3 \<Rightarrow> Float3" where
  \<comment> \<open>Modelled from the spec: undo the translation, then the rotation.\<close>
  "WorldToLocal t p = Float3_Transform (Float3_sub p (Translation t)) (Conjugated (Orientation t))"

definition WorldToLocalVector :: "Transform \<Rightarrow> Float3 \<Rightarrow> Float3" where
  \<comment> \<open>Modelled from the spec: undo the rotation.\<close>
  "WorldToLocalVector t v = Float3_Transform v (Conjugated (Orientation t))"

definition Transform_LocalToWorld :: "Transform \<Rightarrow> Transform \<Rightarrow> Transform" where
  \<comment> \<open>Modelled from the spec: the transform \<open>other\<close>, given in the space of \<open>t\<close>, taken to
      world space.\<close>
  "Transform_LocalToWorld t other =
     \<lparr>Translation = LocalToWorld t (Translation other),
      Orientation = Quaternion_Multiply (Orientation t) (Orientation other)\<rparr>"

subsection \<open>Bounding volumes\<close>

record OrientedBoundingBox =
  Extents :: Float3
  Transformation :: Transform

record BoundingBox =
  Minimum :: Float3
  Maximum :: Float3

record BoundingSphere =
  Center :: Float3
  Radius :: real

definition CreateCentered :: "Float3 \<Rightarrow> Float3 \<Rightarrow> OrientedBoundingBox" where
  \<comment> \<open>Modelled from the spec: \<^verbatim>\<open>OrientedBoundingBox::CreateCentered\<close> is not in src/. An
      unrotated box around \<open>center\<close> with half-extents equal to \<open>size\<close>, in the words of the
      spec's section 4.2; the source passes \<^verbatim>\<open>_size\<close> as it is.\<close>
  "CreateCentered center sz =
     \<lparr>Extents = sz,
      Transformation = \<lparr>Translation = center, Orientation = Quaternion_Identity\<rparr>\<rparr>"

definition OBB_Transform :: "OrientedBoundingBox \<Rightarrow> Transform \<Rightarrow> OrientedBoundingBox" where
  \<comment> \<open>Modelled from the spec: \<^verbatim>\<open>OrientedBoundingBox::Transform\<close> is not in src/. The box
      keeps its extents and is moved by the world transform.\<close>
  "OBB_Transform b t = b\<lparr>Transformation := Transform_LocalToWorld t (Transformation b)\<rparr>"

definition GetCorners :: "OrientedBoundingBox \<Rightarrow> Float3 list" where
  \<comment> \<open>Modelled from the spec: \<^verbatim>\<open>OrientedBoundingBox::GetCorners\<close> is not in src/. The 8
      corners of the box in world space.\<close>
  "GetCorners b =
     (let e = Extents b
      in map (\<lambda>(sx, sy, sz). LocalToWorld (Transformation b) \<lparr>X = sx * X e, Y = sy * Y e, Z = sz * Z e\<rparr>)
           [(1, 1, 1), (1, 1, -1), (1, -1, 1), (1, -1, -1),
            (-1, 1, 1), (-1, 1, -1), (-1, -1, 1), (-1, -1, -1)])"

fun FromPoints :: "Float3 list \<Rightarrow> BoundingBox" where
  \<comment> \<open>Modelled from the spec: the min/max reduction over a list of points.\<close>
  "FromPoints [] = \<lparr>Minimum = Float3_splat 0, Maximum = Float3_splat 0\<rparr>"
| "FromPoints [p] = \<lparr>Minimum = p, Maximum = p\<rparr>"
| "FromPoints (p # ps) =
     (let b = FromPoints ps
      in \<lparr>Minimum = Float3_Min p (Minimum b), Maximum = Float3_Max p (Maximum b)\<rparr>)"

definition GetBoundingBox :: "OrientedBoundingBox \<Rightarrow> BoundingBox" where
  \<comment> \<open>Modelled from the spec: \<^verbatim>\<open>OrientedBoundingBox::GetBoundingBox\<close> is not in src/. The
      axis-aligned enclosing box, by min/max reduction over the 8 corners.\<close>
  "GetBoundingBox b = FromPoints (GetCorners b)"

definition FromBox :: "BoundingBox \<Rightarrow> BoundingSphere" where
  \<comment> \<open>Modelled from the spec: \<^verbatim>\<open>BoundingSphere::FromBox\<close> is not in src/. The sphere around
      the box centre with the half-diagonal as radius.\<close>
  "FromBox b =
     (let d = Float3_sub (Maximum b) (Minimum b)
      in \<lparr>Center = Float3_add (Minimum b) (Float3_scale d (1 / 2)),
          Radius = sqrt (X d * X d + Y d * Y d + Z d * Z d) * (1 / 2)\<rparr>)"

subsection \<open>Points of the volumes\<close>

text \<open>
  What it means for a volume to hold a point; the claims about one volume containing another
  are stated with these predicates.
\<close>

definition OBB_Contains :: "OrientedBoundingBox \<Rightarrow> Float3 \<Rightarrow> bool" where
  \<comment> \<open>the point, taken to the box's own space, lies within the extents on every axis\<close>
  "OBB_Contains b p =
     (let l = WorldToLocal (Transformation b) p; e = Extents b
      in \<bar>X l\<bar> \<le> X e \<and> \<bar>Y l\<bar> \<le> Y e \<and> \<bar>Z l\<bar> \<le> Z e)"

definition Box_Contains :: "BoundingBox \<Rightarrow> Float3 \<Rightarrow> bool" where
  "Box_Contains b p \<longleftrightarrow>
     X (Minimum b) \<le> X p \<and> X p \<le> X (Maximum b) \<and>
     Y (Minimum b) \<le> Y p \<and> Y p \<le> Y (Maximum b) \<and>
     Z (Minimum b) \<le> Z p \<and> Z p \<le> Z (Maximum b)"

definition Distance :: "Float3 \<Rightarrow> Float3 \<Rightarrow> real" where
  "Distance a b =
     (let d = Float3_sub a b in sqrt (X d * X d + Y d * Y d + Z d * Z d))"

definition Sphere_Contains :: "BoundingSphere \<Rightarrow> Float3 \<Rightarrow> bool" where
  "Sphere_Contains s p \<longleftrightarrow> Distance p (Center s) \<le> Radius s"

subsection \<open>The ray test\<close>

record Ray =
  Position :: Float3
  Direction :: Float3

definition GetPoint :: "Ray \<Rightarrow> real \<Rightarrow> Float3" where
  \<comment> \<open>Modelled from the spec: the ray type is not in src/. The point of the ray at the
      parameter \<open>t\<close>.\<close>
  "GetPoint r t = Float3_add (Position r) (Float3_scale (Direction r) t)"

definition slab :: "real \<Rightarrow> real \<Rightarrow> real \<Rightarrow> real \<Rightarrow> Float3
    \<Rightarrow> real \<times> real option \<times> Float3 \<Rightarrow> (real \<times> real option \<times> Float3) option" where
  \<comment> \<open>Modelled from the spec: one axis of the analytic ray against box test. The state is
      the entry parameter so far, the exit parameter so far (\<open>None\<close>: unbounded) and the
      outward normal of the face entered last. \<open>p\<close> and \<open>d\<close> are the ray's position and
      direction on this axis, \<open>lo\<close> and \<open>hi\<close> the box's planes, \<open>axis\<close> the axis itself.\<close>
  "slab p d lo hi axis acc =
     (case acc of (tmin, tmax, n) \<Rightarrow>
        if d = 0 then (if p < lo \<or> hi < p then None else Some acc)
        else
          let near = (if 0 < d then (lo - p) / d else (hi - p) / d);
              far = (if 0 < d then (hi - p) / d else (lo - p) / d);
              tmin' = max near tmin;
              n' = (if tmin < near then Float3_scale axis (- sgn d) else n);
              tmax' = (case tmax of None \<Rightarrow> far | Some f \<Rightarrow> min far f)
          in if tmax' < tmin' then None else Some (tmin', Some tmax', n'))"

definition RayIntersectsBox :: "Ray \<Rightarrow> BoundingBox \<Rightarrow> (real \<times> Float3) option" where
  \<comment> \<open>Modelled from the spec: the analytic ray against axis-aligned box test, axis by
      axis. \<open>None\<close> is "no hit"; a hit gives the ray parameter of the first point of the ray
      in the box (0 when the ray starts in the box) and the outward normal of the face the
      ray enters through.\<close>
  "RayIntersectsBox r b =
     (case slab (X (Position r)) (X (Direction r)) (X (Minimum b)) (X (Maximum b))
             \<lparr>X = 1, Y = 0, Z = 0\<rparr> (0, None, Float3_splat 0) of
        None \<Rightarrow> None
      | Some ax \<Rightarrow>
     (case slab (Y (Position r)) (Y (Direction r)) (Y (Minimum b)) (Y (Maximum b))
             \<lparr>X = 0, Y = 1, Z = 0\<rparr> ax of
        None \<Rightarrow> None
      | Some ay \<Rightarrow>
     (case slab (Z (Position r)) (Z (Direction r)) (Z (Minimum b)) (Z (Maximum b))
             \<lparr>X = 0, Y = 0, Z = 1\<rparr> ay of
        None \<Rightarrow> None
      | Some (distance, tmax, normal) \<Rightarrow> Some (distance, normal))))"

definition OBB_Intersects :: "OrientedBoundingBox \<Rightarrow> Ray \<Rightarrow> (real \<times> Float3) option" where
  \<comment> \<open>Modelled from the spec: \<^verbatim>\<open>OrientedBoundingBox::Intersects(ray, distance, normal)\<close> is
      not in src/. The analytic ray against oriented box test: the ray is taken to the box's
      own space, tested against the box \<open>[-Extents, Extents]\<close>, and the normal is taken back
      to the space of the ray. \<open>None\<close> is the result \<^verbatim>\<open>false\<close>, where distance and normal
      are not specified.\<close>
  "OBB_Intersects b r =
     (let t = Transformation b;
          bRay = \<lparr>Position = WorldToLocal t (Position r),
                  Direction = WorldToLocalVector t (Direction r)\<rparr>;
          bb = \<lparr>Minimum = Float3_neg (Extents b), Maximum = Extents b\<rparr>
      in case RayIntersectsBox bRay bb of
           None \<Rightarrow> None
         | Some (distance, normal) \<Rightarrow> Some (distance, LocalToWorldVector t normal))"

subsection \<open>The collider\<close>

record BoxCollider =
  bc_size :: Float3  \<comment> \<open>\<^verbatim>\<open>_size\<close>\<close>
  bc_center :: Float3  \<comment> \<open>\<^verbatim>\<open>_center\<close>\<close>
  bc_cachedScale :: Float3  \<comment> \<open>\<^verbatim>\<open>_cachedScale\<close>\<close>
  bc_transform :: Transform  \<comment> \<open>\<^verbatim>\<open>_transform\<close>\<close>
  bc_bounds :: OrientedBoundingBox  \<comment> \<open>\<^verbatim>\<open>_bounds\<close>\<close>
  bc_box :: BoundingBox  \<comment> \<open>\<^verbatim>\<open>_box\<close>\<close>
  bc_sphere :: BoundingSphere  \<comment> \<open>\<^verbatim>\<open>_sphere\<close>\<close>
  bc_backend :: "CollisionShape list"
    \<comment> \<open>the descriptors handed to the physics backend so far, oldest first\<close>

definition NearEqual :: "real \<Rightarrow> Float3 \<Rightarrow> Float3 \<Rightarrow> bool" where
  \<comment> \<open>Modelled from the spec: \<^verbatim>\<open>Float3::NearEqual\<close> is not in src/. Equality within a
      tolerance on every component, as the spec words it; the tolerance, a constant of the
      absent header, is the parameter \<open>tol\<close>.\<close>
  "NearEqual tol a b \<longleftrightarrow> \<bar>X a - X b\<bar> < tol \<and> \<bar>Y a - Y b\<bar> < tol \<and> \<bar>Z a - Z b\<bar> < tol"

definition GetGeometry :: "BoxCollider \<Rightarrow> CollisionShape" where
  \<comment> \<open>the out-parameter \<^verbatim>\<open>collision\<close> is the result\<close>
  "GetGeometry st =
     (let size0 = Float3_mul (bc_size st) (bc_cachedScale st);
          minSize = 1 / 1000;
          size1 = Float3_Max (Float3_scale (GetAbsolute size0) (1 / 2)) (Float3_splat minSize)
      in BoxShape size1)"

definition UpdateGeometry :: "BoxCollider \<Rightarrow> BoxCollider" where
  \<comment> \<open>Modelled from the spec: \<^verbatim>\<open>Collider::UpdateGeometry\<close> is not in src/. The backend is
      handed the fresh descriptor of \<^verbatim>\<open>GetGeometry\<close>.\<close>
  "UpdateGeometry st = st\<lparr>bc_backend := bc_backend st @ [GetGeometry st]\<rparr>"

definition UpdateBounds :: "BoxCollider \<Rightarrow> BoxCollider" where
  "UpdateBounds st =
     (let b0 = CreateCentered (bc_center st) (bc_size st);
          b1 = OBB_Transform b0 (bc_transform st);
          bx = GetBoundingBox b1
      in st\<lparr>bc_bounds := b1, bc_box := bx, bc_sphere := FromBox bx\<rparr>)"

definition SetSize :: "(Float3 \<Rightarrow> Float3 \<Rightarrow> bool) \<Rightarrow> Float3 \<Rightarrow> BoxCollider \<Rightarrow> BoxCollider" where
  \<comment> \<open>\<^verbatim>\<open>Float3::NearEqual\<close> is declared in a header that is not in src/: the comparison is
      the parameter \<open>nearEqual\<close>\<close>
  "SetSize nearEqual v st =
     (if nearEqual v (bc_size st) then st
      else UpdateBounds (UpdateGeometry (st\<lparr>bc_size := v\<rparr>)))"

definition IntersectsItself :: "BoxCollider \<Rightarrow> Ray \<Rightarrow> (real \<times> Float3) option" where
  \<comment> \<open>\<open>None\<close> is the result \<^verbatim>\<open>false\<close>; \<open>Some (distance, normal)\<close> is \<^verbatim>\<open>true\<close> with the two
      out-parameters\<close>
  "IntersectsItself st r = OBB_Intersects (bc_bounds st) r"

subsection \<open>Auxiliary definitions\<close>

definition le_opt :: "real \<Rightarrow> real option \<Rightarrow> bool" where
  \<comment> \<open>\<open>t\<close> is within the exit parameter, where \<open>None\<close> is "unbounded"\<close>
  "le_opt t m = (case m of None \<Rightarrow> True | Some f \<Rightarrow> t \<le> f)"

definition Transform_Identity :: Transform where
  "Transform_Identity = \<lparr>Translation = Float3_splat 0, Orientation = Quaternion_Identity\<rparr>"

definition with_shape :: "BoxCollider \<Rightarrow> Float3 \<Rightarrow> Float3 \<Rightarrow> Transform \<Rightarrow> BoxCollider" where
  \<comment> \<open>the collider \<open>st\<close> once its size, centre and world transform have been set\<close>
  "with_shape st sz c t = st\<lparr>bc_size := sz, bc_center := c, bc_transform := t\<rparr>"

definition example_collider :: "Float3 \<Rightarrow> Transform \<Rightarrow> BoxCollider" where
  \<comment> \<open>a concrete collider for the examples: the given size and world transform, centre at
      the origin, unit scale, bounds up to date, nothing handed to the backend yet\<close>
  "example_collider sz t =
     UpdateBounds
       \<lparr>bc_size = sz, bc_center = Float3_splat 0, bc_cachedScale = Float3_splat 1,
        bc_transform = t,
        bc_bounds = CreateCentered (Float3_splat 0) (Float3_splat 0),
        bc_box = \<lparr>Minimum = Float3_splat 0, Maximum = Float3_splat 0\<rparr>,
        bc_sphere = \<lparr>Center = Float3_splat 0, Radius = 0\<rparr>,
        bc_backend = []\<rparr>"

section \<open>Unfolding rules\<close>

lemmas vec_defs = Float3_splat_def Float3_mul_def Float3_scale_def Float3_add_def Float3_sub_def
  Float3_neg_def GetAbsolute_def Float3_Max_def Float3_Min_def

lemmas transform_defs = Quaternion_Identity_def Conjugated_def Quaternion_Multiply_def
  Float3_Transform_def LocalToWorld_def LocalToWorldVector_def WorldToLocal_def
  WorldToLocalVector_def Transform_LocalToWorld_def Transform_Identity_def

lemma UpdateBounds_fields:
  "bc_bounds (UpdateBounds st) = OBB_Transform (CreateCentered (bc_center st) (bc_size st)) (bc_transform st)"
  "bc_box (UpdateBounds st) = GetBoundingBox (bc_bounds (UpdateBounds st))"
  "bc_sphere (UpdateBounds st) = FromBox (bc_box (UpdateBounds st))"
  "bc_size (UpdateBounds st) = bc_size st"
  "bc_center (UpdateBounds st) = bc_center st"
  "bc_cachedScale (UpdateBounds st) = bc_cachedScale st"
  "bc_transform (UpdateBounds st) = bc_transform st"
  "bc_backend (UpdateBounds st) = bc_backend st"
  by (simp_all add: UpdateBounds_def Let_def)

lemma UpdateBounds_idem: "UpdateBounds (UpdateBounds st) = UpdateBounds st"
  by (simp add: UpdateBounds_def Let_def)

lemma Quaternion_Multiply_Identity:
  "Quaternion_Multiply q Quaternion_Identity = q"
  by (simp add: Quaternion_Multiply_def Quaternion_Identity_def)

lemma UpdateBounds_Orientation:
  "Orientation (Transformation (bc_bounds (UpdateBounds st))) = Orientation (bc_transform st)"
  by (simp add: UpdateBounds_fields OBB_Transform_def CreateCentered_def Transform_LocalToWorld_def
      Quaternion_Multiply_Identity)

section \<open>The geometry descriptor\<close>

lemma GetGeometry_eq:
  "GetGeometry st =
     BoxShape \<lparr>X = max (\<bar>X (bc_size st) * X (bc_cachedScale st)\<bar> * (1 / 2)) (1 / 1000),
               Y = max (\<bar>Y (bc_size st) * Y (bc_cachedScale st)\<bar> * (1 / 2)) (1 / 1000),
               Z = max (\<bar>Z (bc_size st) * Z (bc_cachedScale st)\<bar> * (1 / 2)) (1 / 1000)\<rparr>"
  by (simp add: GetGeometry_def vec_defs Let_def)

text \<open>
  Claim C1. For every size \<open>S\<close> and accumulated scale \<open>c\<close>, \<^verbatim>\<open>GetGeometry\<close> produces the box
  descriptor whose half-extent on each axis is \<open>max (|S * c| * 0.5) 0.001\<close>. With the size
  \<open>(0,5,5)\<close> and scale \<open>(1,1,1)\<close> the half-extents are \<open>(0.001, 2.5, 2.5)\<close>; with the size
  \<open>(2,2,2)\<close> and scale \<open>(0.1,1,1)\<close> they are \<open>(0.1, 1, 1)\<close>.
\<close>

theorem GetGeometry_half_extents:
  "GetGeometry st =
     BoxShape \<lparr>X = max (\<bar>X (bc_size st) * X (bc_cachedScale st)\<bar> * (1 / 2)) (1 / 1000),
               Y = max (\<bar>Y (bc_size st) * Y (bc_cachedScale st)\<bar> * (1 / 2)) (1 / 1000),
               Z = max (\<bar>Z (bc_size st) * Z (bc_cachedScale st)\<bar> * (1 / 2)) (1 / 1000)\<rparr>
   \<and> GetGeometry (st\<lparr>bc_size := \<lparr>X = 0, Y = 5, Z = 5\<rparr>, bc_cachedScale := \<lparr>X = 1, Y = 1, Z = 1\<rparr>\<rparr>)
       = BoxShape \<lparr>X = 1 / 1000, Y = 5 / 2, Z = 5 / 2\<rparr>
   \<and> GetGeometry (st\<lparr>bc_size := \<lparr>X = 2, Y = 2, Z = 2\<rparr>, bc_cachedScale := \<lparr>X = 1 / 10, Y = 1, Z = 1\<rparr>\<rparr>)
       = BoxShape \<lparr>X = 1 / 10, Y = 1, Z = 1\<rparr>"
  by (simp add: GetGeometry_def vec_defs Let_def)

text \<open>
  Claim C10. \<^verbatim>\<open>GetGeometry\<close> does not see the signs of its inputs: two colliders whose
  products \<open>size * scale\<close> agree in absolute value on every axis (as they do when components
  of the size and of the scale are negated) get the same descriptor, and the half-extents of
  a descriptor are strictly positive whatever the signs.
\<close>

theorem GetGeometry_sign_invariant:
  assumes "\<bar>X (bc_size st') * X (bc_cachedScale st')\<bar> = \<bar>X (bc_size st) * X (bc_cachedScale st)\<bar>"
    and "\<bar>Y (bc_size st') * Y (bc_cachedScale st')\<bar> = \<bar>Y (bc_size st) * Y (bc_cachedScale st)\<bar>"
    and "\<bar>Z (bc_size st') * Z (bc_cachedScale st')\<bar> = \<bar>Z (bc_size st) * Z (bc_cachedScale st)\<bar>"
  shows "GetGeometry st' = GetGeometry st
       \<and> 0 < X (HalfExtents (GetGeometry st)) \<and> 0 < Y (HalfExtents (GetGeometry st))
       \<and> 0 < Z (HalfExtents (GetGeometry st))"
  unfolding GetGeometry_eq assms by (simp add: less_max_iff_disj)

theorem GetGeometry_sign_invariant_witness:
  "GetGeometry (example_collider \<lparr>X = - 2, Y = 3, Z = - 4\<rparr> Transform_Identity)
     = GetGeometry (example_collider \<lparr>X = 2, Y = 3, Z = 4\<rparr> Transform_Identity)
   \<and> 0 < X (HalfExtents (GetGeometry (example_collider \<lparr>X = 2, Y = 3, Z = 4\<rparr> Transform_Identity)))
   \<and> 0 < Y (HalfExtents (GetGeometry (example_collider \<lparr>X = 2, Y = 3, Z = 4\<rparr> Transform_Identity)))
   \<and> 0 < Z (HalfExtents (GetGeometry (example_collider \<lparr>X = 2, Y = 3, Z = 4\<rparr> Transform_Identity)))"
  by (rule GetGeometry_sign_invariant)
    (simp_all add: example_collider_def UpdateBounds_fields Float3_splat_def)

section \<open>The size setter\<close>

text \<open>
  Claim C5. When the new size is approximately equal to the current one, \<^verbatim>\<open>SetSize\<close> is a
  no-op: the whole state (stored size, oriented box, axis-aligned box, sphere, and the
  descriptors handed to the backend) is unchanged, and so is the geometry descriptor. This
  holds whatever comparison \<^verbatim>\<open>NearEqual\<close> is, and in particular for the comparison within a
  tolerance on every component, which is not equality of the components.
\<close>

theorem SetSize_near_equal_noop:
  "(nearEqual v (bc_size st) \<longrightarrow> SetSize nearEqual v st = st)
   \<and> (\<bar>X v - X (bc_size st)\<bar> < tol \<and> \<bar>Y v - Y (bc_size st)\<bar> < tol \<and> \<bar>Z v - Z (bc_size st)\<bar> < tol \<longrightarrow>
        SetSize (NearEqual tol) v st = st
        \<and> bc_backend (SetSize (NearEqual tol) v st) = bc_backend st
        \<and> GetGeometry (SetSize (NearEqual tol) v st) = GetGeometry st)"
  by (simp add: SetSize_def NearEqual_def)

theorem SetSize_near_equal_noop_witness:
  "\<lparr>X = 2 + 1 / 10000000, Y = 2, Z = 2\<rparr> \<noteq> bc_size (example_collider \<lparr>X = 2, Y = 2, Z = 2\<rparr> Transform_Identity)
   \<and> SetSize (NearEqual (1 / 1000000)) \<lparr>X = 2 + 1 / 10000000, Y = 2, Z = 2\<rparr>
         (example_collider \<lparr>X = 2, Y = 2, Z = 2\<rparr> Transform_Identity)
       = example_collider \<lparr>X = 2, Y = 2, Z = 2\<rparr> Transform_Identity"
proof -
  let ?st = "example_collider \<lparr>X = 2, Y = 2, Z = 2\<rparr> Transform_Identity"
  let ?v = "\<lparr>X = 2 + 1 / 10000000, Y = 2, Z = 2\<rparr>"
  have s: "bc_size ?st = \<lparr>X = 2, Y = 2, Z = 2\<rparr>"
    by (simp add: example_collider_def UpdateBounds_fields)
  have h: "\<bar>X ?v - X (bc_size ?st)\<bar> < 1 / 1000000 \<and> \<bar>Y ?v - Y (bc_size ?st)\<bar> < 1 / 1000000
      \<and> \<bar>Z ?v - Z (bc_size ?st)\<bar> < 1 / 1000000"
    unfolding s by simp
  have "SetSize (NearEqual (1 / 1000000)) ?v ?st = ?st"
    using SetSize_near_equal_noop[of "NearEqual (1 / 1000000)" ?v ?st "1 / 1000000"] h by blast
  moreover have "?v \<noteq> bc_size ?st" unfolding s by simp
  ultimately show ?thesis by blast
qed

text \<open>
  Claim C6. When the new size is not approximately equal to the current one, \<^verbatim>\<open>SetSize\<close>
  stores it, hands the backend the descriptor of the new size, and recomputes the bounds
  before it returns: the oriented box, the axis-aligned box and the sphere are those of
  \<^verbatim>\<open>UpdateBounds\<close> for the new size, and recomputing them again changes nothing.
\<close>

theorem SetSize_changes_recompute:
  assumes "\<not> nearEqual v (bc_size st)"
  shows "bc_size (SetSize nearEqual v st) = v
       \<and> bc_backend (SetSize nearEqual v st) = bc_backend st @ [GetGeometry (st\<lparr>bc_size := v\<rparr>)]
       \<and> bc_bounds (SetSize nearEqual v st) = bc_bounds (UpdateBounds (st\<lparr>bc_size := v\<rparr>))
       \<and> bc_box (SetSize nearEqual v st) = bc_box (UpdateBounds (st\<lparr>bc_size := v\<rparr>))
       \<and> bc_sphere (SetSize nearEqual v st) = bc_sphere (UpdateBounds (st\<lparr>bc_size := v\<rparr>))
       \<and> UpdateBounds (SetSize nearEqual v st) = SetSize nearEqual v st"
  using assms
  by (simp add: SetSize_def UpdateBounds_idem UpdateBounds_fields UpdateGeometry_def)

theorem SetSize_changes_recompute_witness:
  "\<not> NearEqual (1 / 1000000) \<lparr>X = 4, Y = 2, Z = 2\<rparr> (bc_size (example_collider \<lparr>X = 2, Y = 2, Z = 2\<rparr> Transform_Identity))
   \<and> bc_size (SetSize (NearEqual (1 / 1000000)) \<lparr>X = 4, Y = 2, Z = 2\<rparr> (example_collider \<lparr>X = 2, Y = 2, Z = 2\<rparr> Transform_Identity))
       = \<lparr>X = 4, Y = 2, Z = 2\<rparr>
   \<and> bc_backend (SetSize (NearEqual (1 / 1000000)) \<lparr>X = 4, Y = 2, Z = 2\<rparr> (example_collider \<lparr>X = 2, Y = 2, Z = 2\<rparr> Transform_Identity))
       = [BoxShape \<lparr>X = 2, Y = 1, Z = 1\<rparr>]
   \<and> bc_box (SetSize (NearEqual (1 / 1000000)) \<lparr>X = 4, Y = 2, Z = 2\<rparr> (example_collider \<lparr>X = 2, Y = 2, Z = 2\<rparr> Transform_Identity))
       = \<lparr>Minimum = \<lparr>X = - 4, Y = - 2, Z = - 2\<rparr>, Maximum = \<lparr>X = 4, Y = 2, Z = 2\<rparr>\<rparr>"
proof -
  let ?st = "example_collider \<lparr>X = 2, Y = 2, Z = 2\<rparr> Transform_Identity"
  let ?v = "\<lparr>X = 4, Y = 2, Z = 2\<rparr>"
  have h: "\<not> NearEqual (1 / 1000000) ?v (bc_size ?st)"
    by (simp add: NearEqual_def example_collider_def UpdateBounds_fields)
  note t = SetSize_changes_recompute[of "NearEqual (1 / 1000000)" ?v ?st, OF h]
  have g: "GetGeometry (?st\<lparr>bc_size := ?v\<rparr>) = BoxShape \<lparr>X = 2, Y = 1, Z = 1\<rparr>"
    by (simp add: GetGeometry_eq example_collider_def UpdateBounds_fields Float3_splat_def)
  have b: "bc_box (UpdateBounds (?st\<lparr>bc_size := ?v\<rparr>)) = \<lparr>Minimum = \<lparr>X = - 4, Y = - 2, Z = - 2\<rparr>, Maximum = \<lparr>X = 4, Y = 2, Z = 2\<rparr>\<rparr>"
    unfolding UpdateBounds_fields(2) UpdateBounds_fields(1)
    by (simp add: example_collider_def UpdateBounds_fields GetBoundingBox_def GetCorners_def
        CreateCentered_def OBB_Transform_def transform_defs vec_defs Let_def)
  have k: "bc_backend ?st = []" by (simp add: example_collider_def UpdateBounds_fields)
  show ?thesis using h t g b k by simp
qed

section \<open>The bounds cache\<close>

subsection \<open>A rotation is undone by its conjugate\<close>

lemma unit_diag:
  fixes x y z w :: real
  assumes n: "x * x + y * y + z * z + w * w = 1"
  shows "1 - 2 * (y * y + z * z) = x * x + w * w - y * y - z * z"
    and "1 - 2 * (x * x + z * z) = y * y + w * w - x * x - z * z"
    and "1 - 2 * (x * x + y * y) = z * z + w * w - x * x - y * y"
  using n by (simp_all add: algebra_simps)

lemma rot_inv_X:
  fixes x y z w a b c :: real
  assumes n: "x * x + y * y + z * z + w * w = 1"
  shows "(a * (1 - 2 * (y * y + z * z)) + b * (2 * (x * y + w * z)) + c * (2 * (x * z - w * y))) * (1 - 2 * (y * y + z * z))
       + (a * (2 * (x * y - w * z)) + b * (1 - 2 * (x * x + z * z)) + c * (2 * (y * z + w * x))) * (2 * (x * y - w * z))
       + (a * (2 * (x * z + w * y)) + b * (2 * (y * z - w * x)) + c * (1 - 2 * (x * x + y * y))) * (2 * (x * z + w * y))
       = a"
proof -
  have "(a * (x * x + w * w - y * y - z * z) + b * (2 * (x * y + w * z)) + c * (2 * (x * z - w * y))) * (x * x + w * w - y * y - z * z)
       + (a * (2 * (x * y - w * z)) + b * (y * y + w * w - x * x - z * z) + c * (2 * (y * z + w * x))) * (2 * (x * y - w * z))
       + (a * (2 * (x * z + w * y)) + b * (2 * (y * z - w * x)) + c * (z * z + w * w - x * x - y * y)) * (2 * (x * z + w * y))
       = a * ((x * x + y * y + z * z + w * w) * (x * x + y * y + z * z + w * w))"
    by (simp add: algebra_simps)
  then show ?thesis
    unfolding unit_diag[OF n] n by simp
qed

lemma rot_inv_Y:
  fixes x y z w a b c :: real
  assumes n: "x * x + y * y + z * z + w * w = 1"
  shows "(a * (1 - 2 * (y * y + z * z)) + b * (2 * (x * y + w * z)) + c * (2 * (x * z - w * y))) * (2 * (x * y + w * z))
       + (a * (2 * (x * y - w * z)) + b * (1 - 2 * (x * x + z * z)) + c * (2 * (y * z + w * x))) * (1 - 2 * (x * x + z * z))
       + (a * (2 * (x * z + w * y)) + b * (2 * (y * z - w * x)) + c * (1 - 2 * (x * x + y * y))) * (2 * (y * z - w * x))
       = b"
proof -
  have "(a * (x * x + w * w - y * y - z * z) + b * (2 * (x * y + w * z)) + c * (2 * (x * z - w * y))) * (2 * (x * y + w * z))
       + (a * (2 * (x * y - w * z)) + b * (y * y + w * w - x * x - z * z) + c * (2 * (y * z + w * x))) * (y * y + w * w - x * x - z * z)
       + (a * (2 * (x * z + w * y)) + b * (2 * (y * z - w * x)) + c * (z * z + w * w - x * x - y * y)) * (2 * (y * z - w * x))
       = b * ((x * x + y * y + z * z + w * w) * (x * x + y * y + z * z + w * w))"
    by (simp add: algebra_simps)
  then show ?thesis
    unfolding unit_diag[OF n] n by simp
qed

lemma rot_inv_Z:
  fixes x y z w a b c :: real
  assumes n: "x * x + y * y + z * z + w * w = 1"
  shows "(a * (1 - 2 * (y * y + z * z)) + b * (2 * (x * y + w * z)) + c * (2 * (x * z - w * y))) * (2 * (x * z - w * y))
       + (a * (2 * (x * y - w * z)) + b * (1 - 2 * (x * x + z * z)) + c * (2 * (y * z + w * x))) * (2 * (y * z + w * x))
       + (a * (2 * (x * z + w * y)) + b * (2 * (y * z - w * x)) + c * (1 - 2 * (x * x + y * y))) * (1 - 2 * (x * x + y * y))
       = c"
proof -
  have "(a * (x * x + w * w - y * y - z * z) + b * (2 * (x * y + w * z)) + c * (2 * (x * z - w * y))) * (2 * (x * z - w * y))
       + (a * (2 * (x * y - w * z)) + b * (y * y + w * w - x * x - z * z) + c * (2 * (y * z + w * x))) * (2 * (y * z + w * x))
       + (a * (2 * (x * z + w * y)) + b * (2 * (y * z - w * x)) + c * (z * z + w * w - x * x - y * y)) * (z * z + w * w - x * x - y * y)
       = c * ((x * x + y * y + z * z + w * w) * (x * x + y * y + z * z + w * w))"
    by (simp add: algebra_simps)
  then show ?thesis
    unfolding unit_diag[OF n] n by simp
qed

lemma Float3_Transform_Conjugated:
  assumes "IsNormalized q"
  shows "Float3_Transform (Float3_Transform v (Conjugated q)) q = v"
proof -
  have n: "QX q * QX q + QY q * QY q + QZ q * QZ q + QW q * QW q = 1"
    using assms by (simp add: IsNormalized_def)
  show ?thesis
    using rot_inv_X[OF n, of "X v" "Y v" "Z v"] rot_inv_Y[OF n, of "X v" "Y v" "Z v"]
      rot_inv_Z[OF n, of "X v" "Y v" "Z v"]
    by (simp add: Float3_Transform_def Conjugated_def Let_def)
qed

lemma LocalToWorld_WorldToLocal:
  assumes "IsNormalized (Orientation t)"
  shows "LocalToWorld t (WorldToLocal t p) = p"
  by (simp add: LocalToWorld_def WorldToLocal_def Float3_Transform_Conjugated[OF assms]
      Float3_add_def Float3_sub_def)

lemma Conjugated_Conjugated: "Conjugated (Conjugated q) = q"
  by (simp add: Conjugated_def)

lemma IsNormalized_Conjugated: "IsNormalized (Conjugated q) = IsNormalized q"
  by (simp add: IsNormalized_def Conjugated_def)

lemma Float3_Transform_Conjugated_back:
  assumes "IsNormalized q"
  shows "Float3_Transform (Float3_Transform v q) (Conjugated q) = v"
  using Float3_Transform_Conjugated[of "Conjugated q" v] assms
  by (simp add: Conjugated_Conjugated IsNormalized_Conjugated)

lemma Float3_Transform_sub:
  "Float3_Transform (Float3_sub u w) q = Float3_sub (Float3_Transform u q) (Float3_Transform w q)"
  by (simp add: Float3_Transform_def Float3_sub_def Let_def algebra_simps)

lemma Float3_add_sub_cancel: "Float3_sub (Float3_add u w) w = u"
  by (simp add: Float3_add_def Float3_sub_def)

lemma WorldToLocal_LocalToWorld:
  assumes "IsNormalized (Orientation t)"
  shows "WorldToLocal t (LocalToWorld t l) = l"
  by (simp add: LocalToWorld_def WorldToLocal_def Float3_add_sub_cancel
      Float3_Transform_Conjugated_back[OF assms])

subsection \<open>The axis-aligned box holds the oriented box\<close>

lemma FromPoints_bounds:
  "p \<in> set ps \<Longrightarrow> Box_Contains (FromPoints ps) p"
proof (induction ps rule: FromPoints.induct)
  case 1
  then show ?case by simp
next
  case (2 q)
  then show ?case by (simp add: Box_Contains_def)
next
  case (3 q r rs)
  show ?case
  proof (cases "p = q")
    case True
    then show ?thesis
      by (simp add: Box_Contains_def Let_def Float3_Min_def Float3_Max_def)
  next
    case False
    with 3 have "Box_Contains (FromPoints (r # rs)) p" by simp
    then show ?thesis
      by (simp add: Box_Contains_def Let_def Float3_Min_def Float3_Max_def
          min_le_iff_disj le_max_iff_disj)
  qed
qed

lemma term_corner_upper:
  fixes l e a :: real
  assumes "\<bar>l\<bar> \<le> e"
  shows "l * a \<le> ((if 0 \<le> a then 1 else - 1) * e) * a"
proof (cases "0 \<le> a")
  case True
  have "l \<le> e" using assms by simp
  then have "l * a \<le> e * a" using True by (rule mult_right_mono)
  then show ?thesis using True by simp
next
  case False
  have "- e \<le> l" using assms by simp
  then have "l * a \<le> (- e) * a" using False by (intro mult_right_mono_neg) simp_all
  then show ?thesis using False by simp
qed

lemma term_corner_lower:
  fixes l e a :: real
  assumes "\<bar>l\<bar> \<le> e"
  shows "((if 0 \<le> a then - 1 else 1) * e) * a \<le> l * a"
proof (cases "0 \<le> a")
  case True
  have "- e \<le> l" using assms by simp
  then have "(- e) * a \<le> l * a" using True by (rule mult_right_mono)
  then show ?thesis using True by simp
next
  case False
  have "l \<le> e" using assms by simp
  then have "e * a \<le> l * a" using False by (intro mult_right_mono_neg) simp_all
  then show ?thesis using False by simp
qed

lemma corner_mem:
  assumes "sx = 1 \<or> sx = - 1" "sy = 1 \<or> sy = - 1" "sz = 1 \<or> sz = - 1"
  shows "LocalToWorld (Transformation b) \<lparr>X = sx * X (Extents b), Y = sy * Y (Extents b), Z = sz * Z (Extents b)\<rparr>
           \<in> set (GetCorners b)"
  using assms unfolding GetCorners_def Let_def by auto

lemma abs_as_sign:
  fixes e :: real
  shows "\<exists>s. (s = 1 \<or> s = - 1) \<and> \<bar>e\<bar> = s * e"
  by (cases "0 \<le> e") auto

lemma term_corner_upper_abs:
  fixes l e a :: real
  assumes "\<bar>l\<bar> \<le> \<bar>e\<bar>"
  shows "\<exists>s. (s = 1 \<or> s = - 1) \<and> l * a \<le> (s * e) * a"
proof -
  obtain s1 where s1: "s1 = 1 \<or> s1 = - 1" "\<bar>e\<bar> = s1 * e" using abs_as_sign by blast
  have "l * a \<le> ((if 0 \<le> a then 1 else - 1) * (s1 * e)) * a"
    using term_corner_upper[OF assms, of a] s1(2) by simp
  then have "l * a \<le> (((if 0 \<le> a then 1 else - 1) * s1) * e) * a" by (simp add: mult.assoc)
  moreover have "(if 0 \<le> a then 1 else - 1) * s1 = 1 \<or> (if 0 \<le> a then 1 else - 1) * s1 = - 1"
    using s1(1) by auto
  ultimately show ?thesis by blast
qed

lemma term_corner_lower_abs:
  fixes l e a :: real
  assumes "\<bar>l\<bar> \<le> \<bar>e\<bar>"
  shows "\<exists>s. (s = 1 \<or> s = - 1) \<and> (s * e) * a \<le> l * a"
proof -
  obtain s1 where s1: "s1 = 1 \<or> s1 = - 1" "\<bar>e\<bar> = s1 * e" using abs_as_sign by blast
  have "((if 0 \<le> a then - 1 else 1) * (s1 * e)) * a \<le> l * a"
    using term_corner_lower[OF assms, of a] s1(2) by simp
  then have "(((if 0 \<le> a then - 1 else 1) * s1) * e) * a \<le> l * a" by (simp add: mult.assoc)
  moreover have "(if 0 \<le> a then - 1 else 1) * s1 = 1 \<or> (if 0 \<le> a then - 1 else 1) * s1 = - 1"
    using s1(1) by auto
  ultimately show ?thesis by blast
qed

lemma coordinate_in_corner_range_abs:
  fixes f :: "Float3 \<Rightarrow> real"
  assumes f: "\<And>v. f (LocalToWorld (Transformation b) v) = X v * a + Y v * c + Z v * d + k"
    and l: "\<bar>X l\<bar> \<le> \<bar>X (Extents b)\<bar>" "\<bar>Y l\<bar> \<le> \<bar>Y (Extents b)\<bar>" "\<bar>Z l\<bar> \<le> \<bar>Z (Extents b)\<bar>"
  shows "\<exists>c1 \<in> set (GetCorners b). \<exists>c2 \<in> set (GetCorners b).
           f c1 \<le> f (LocalToWorld (Transformation b) l) \<and> f (LocalToWorld (Transformation b) l) \<le> f c2"
proof -
  obtain ux uy uz where u: "ux = 1 \<or> ux = - 1" "X l * a \<le> (ux * X (Extents b)) * a"
      "uy = 1 \<or> uy = - 1" "Y l * c \<le> (uy * Y (Extents b)) * c"
      "uz = 1 \<or> uz = - 1" "Z l * d \<le> (uz * Z (Extents b)) * d"
    using term_corner_upper_abs[OF l(1), of a] term_corner_upper_abs[OF l(2), of c]
      term_corner_upper_abs[OF l(3), of d] by blast
  obtain vx vy vz where v: "vx = 1 \<or> vx = - 1" "(vx * X (Extents b)) * a \<le> X l * a"
      "vy = 1 \<or> vy = - 1" "(vy * Y (Extents b)) * c \<le> Y l * c"
      "vz = 1 \<or> vz = - 1" "(vz * Z (Extents b)) * d \<le> Z l * d"
    using term_corner_lower_abs[OF l(1), of a] term_corner_lower_abs[OF l(2), of c]
      term_corner_lower_abs[OF l(3), of d] by blast
  define lo where "lo = LocalToWorld (Transformation b)
     \<lparr>X = vx * X (Extents b), Y = vy * Y (Extents b), Z = vz * Z (Extents b)\<rparr>"
  define hi where "hi = LocalToWorld (Transformation b)
     \<lparr>X = ux * X (Extents b), Y = uy * Y (Extents b), Z = uz * Z (Extents b)\<rparr>"
  have "lo \<in> set (GetCorners b)" unfolding lo_def by (rule corner_mem[OF v(1) v(3) v(5)])
  moreover have "hi \<in> set (GetCorners b)" unfolding hi_def by (rule corner_mem[OF u(1) u(3) u(5)])
  moreover have "f lo \<le> f (LocalToWorld (Transformation b) l)"
    using v(2,4,6) unfolding lo_def f by simp
  moreover have "f (LocalToWorld (Transformation b) l) \<le> f hi"
    using u(2,4,6) unfolding hi_def f by simp
  ultimately show ?thesis by blast
qed

lemma LocalToWorld_X:
  "X (LocalToWorld t v) =
     X v * (1 - 2 * (QY (Orientation t) * QY (Orientation t) + QZ (Orientation t) * QZ (Orientation t)))
   + Y v * (2 * (QX (Orientation t) * QY (Orientation t) - QW (Orientation t) * QZ (Orientation t)))
   + Z v * (2 * (QX (Orientation t) * QZ (Orientation t) + QW (Orientation t) * QY (Orientation t)))
   + X (Translation t)"
  by (simp add: LocalToWorld_def Float3_Transform_def Float3_add_def Let_def)

lemma LocalToWorld_Y:
  "Y (LocalToWorld t v) =
     X v * (2 * (QX (Orientation t) * QY (Orientation t) + QW (Orientation t) * QZ (Orientation t)))
   + Y v * (1 - 2 * (QX (Orientation t) * QX (Orientation t) + QZ (Orientation t) * QZ (Orientation t)))
   + Z v * (2 * (QY (Orientation t) * QZ (Orientation t) - QW (Orientation t) * QX (Orientation t)))
   + Y (Translation t)"
  by (simp add: LocalToWorld_def Float3_Transform_def Float3_add_def Let_def)

lemma LocalToWorld_Z:
  "Z (LocalToWorld t v) =
     X v * (2 * (QX (Orientation t) * QZ (Orientation t) - QW (Orientation t) * QY (Orientation t)))
   + Y v * (2 * (QY (Orientation t) * QZ (Orientation t) + QW (Orientation t) * QX (Orientation t)))
   + Z v * (1 - 2 * (QX (Orientation t) * QX (Orientation t) + QY (Orientation t) * QY (Orientation t)))
   + Z (Translation t)"
  by (simp add: LocalToWorld_def Float3_Transform_def Float3_add_def Let_def)

lemma GetBoundingBox_contains_hull:
  assumes l: "\<bar>X l\<bar> \<le> \<bar>X (Extents b)\<bar>" "\<bar>Y l\<bar> \<le> \<bar>Y (Extents b)\<bar>" "\<bar>Z l\<bar> \<le> \<bar>Z (Extents b)\<bar>"
  shows "Box_Contains (GetBoundingBox b) (LocalToWorld (Transformation b) l)"
proof -
  let ?p = "LocalToWorld (Transformation b) l"
  let ?bb = "FromPoints (GetCorners b)"
  have in_box: "\<And>c. c \<in> set (GetCorners b) \<Longrightarrow> Box_Contains ?bb c"
    by (rule FromPoints_bounds)
  obtain x1 x2 where x: "x1 \<in> set (GetCorners b)" "x2 \<in> set (GetCorners b)" "X x1 \<le> X ?p" "X ?p \<le> X x2"
    using coordinate_in_corner_range_abs[of X, OF LocalToWorld_X l] by blast
  obtain y1 y2 where y: "y1 \<in> set (GetCorners b)" "y2 \<in> set (GetCorners b)" "Y y1 \<le> Y ?p" "Y ?p \<le> Y y2"
    using coordinate_in_corner_range_abs[of Y, OF LocalToWorld_Y l] by blast
  obtain z1 z2 where z: "z1 \<in> set (GetCorners b)" "z2 \<in> set (GetCorners b)" "Z z1 \<le> Z ?p" "Z ?p \<le> Z z2"
    using coordinate_in_corner_range_abs[of Z, OF LocalToWorld_Z l] by blast
  have "X (Minimum ?bb) \<le> X ?p" using in_box[OF x(1)] x(3) by (simp add: Box_Contains_def)
  moreover have "X ?p \<le> X (Maximum ?bb)" using in_box[OF x(2)] x(4) by (simp add: Box_Contains_def)
  moreover have "Y (Minimum ?bb) \<le> Y ?p" using in_box[OF y(1)] y(3) by (simp add: Box_Contains_def)
  moreover have "Y ?p \<le> Y (Maximum ?bb)" using in_box[OF y(2)] y(4) by (simp add: Box_Contains_def)
  moreover have "Z (Minimum ?bb) \<le> Z ?p" using in_box[OF z(1)] z(3) by (simp add: Box_Contains_def)
  moreover have "Z ?p \<le> Z (Maximum ?bb)" using in_box[OF z(2)] z(4) by (simp add: Box_Contains_def)
  ultimately show ?thesis by (simp add: Box_Contains_def GetBoundingBox_def)
qed

lemma GetBoundingBox_contains_OBB:
  assumes n: "IsNormalized (Orientation (Transformation b))" and p: "OBB_Contains b p"
  shows "Box_Contains (GetBoundingBox b) p"
proof -
  let ?l = "WorldToLocal (Transformation b) p"
  have "\<bar>X ?l\<bar> \<le> X (Extents b)" "\<bar>Y ?l\<bar> \<le> Y (Extents b)" "\<bar>Z ?l\<bar> \<le> Z (Extents b)"
    using p by (simp_all add: OBB_Contains_def Let_def)
  then have "\<bar>X ?l\<bar> \<le> \<bar>X (Extents b)\<bar>" "\<bar>Y ?l\<bar> \<le> \<bar>Y (Extents b)\<bar>" "\<bar>Z ?l\<bar> \<le> \<bar>Z (Extents b)\<bar>"
    by linarith+
  then have "Box_Contains (GetBoundingBox b) (LocalToWorld (Transformation b) ?l)"
    by (rule GetBoundingBox_contains_hull)
  then show ?thesis by (simp add: LocalToWorld_WorldToLocal[OF n])
qed

lemma FromPoints_attained:
  assumes "ps \<noteq> []"
  shows "(\<exists>p \<in> set ps. X p = X (Minimum (FromPoints ps))) \<and> (\<exists>p \<in> set ps. X p = X (Maximum (FromPoints ps)))
       \<and> (\<exists>p \<in> set ps. Y p = Y (Minimum (FromPoints ps))) \<and> (\<exists>p \<in> set ps. Y p = Y (Maximum (FromPoints ps)))
       \<and> (\<exists>p \<in> set ps. Z p = Z (Minimum (FromPoints ps))) \<and> (\<exists>p \<in> set ps. Z p = Z (Maximum (FromPoints ps)))"
  using assms
proof (induction ps rule: FromPoints.induct)
  case 1
  then show ?case by simp
next
  case (2 q)
  then show ?case by simp
next
  case (3 q r rs)
  then have ih: "(\<exists>p \<in> set (r # rs). X p = X (Minimum (FromPoints (r # rs)))) \<and> (\<exists>p \<in> set (r # rs). X p = X (Maximum (FromPoints (r # rs))))
       \<and> (\<exists>p \<in> set (r # rs). Y p = Y (Minimum (FromPoints (r # rs)))) \<and> (\<exists>p \<in> set (r # rs). Y p = Y (Maximum (FromPoints (r # rs))))
       \<and> (\<exists>p \<in> set (r # rs). Z p = Z (Minimum (FromPoints (r # rs)))) \<and> (\<exists>p \<in> set (r # rs). Z p = Z (Maximum (FromPoints (r # rs))))"
    by simp
  have m: "\<And>(a::real) b. min a b = a \<or> min a b = b" "\<And>(a::real) b. max a b = a \<or> max a b = b"
    by (auto simp: min_def max_def)
  let ?B = "FromPoints (r # rs)"
  have "\<exists>p \<in> set (q # r # rs). X p = min (X q) (X (Minimum ?B))"
    using ih m(1)[of "X q" "X (Minimum ?B)"] by (metis list.set_intros(1,2))
  moreover have "\<exists>p \<in> set (q # r # rs). X p = max (X q) (X (Maximum ?B))"
    using ih m(2)[of "X q" "X (Maximum ?B)"] by (metis list.set_intros(1,2))
  moreover have "\<exists>p \<in> set (q # r # rs). Y p = min (Y q) (Y (Minimum ?B))"
    using ih m(1)[of "Y q" "Y (Minimum ?B)"] by (metis list.set_intros(1,2))
  moreover have "\<exists>p \<in> set (q # r # rs). Y p = max (Y q) (Y (Maximum ?B))"
    using ih m(2)[of "Y q" "Y (Maximum ?B)"] by (metis list.set_intros(1,2))
  moreover have "\<exists>p \<in> set (q # r # rs). Z p = min (Z q) (Z (Minimum ?B))"
    using ih m(1)[of "Z q" "Z (Minimum ?B)"] by (metis list.set_intros(1,2))
  moreover have "\<exists>p \<in> set (q # r # rs). Z p = max (Z q) (Z (Maximum ?B))"
    using ih m(2)[of "Z q" "Z (Maximum ?B)"] by (metis list.set_intros(1,2))
  ultimately show ?case
    by (simp only: FromPoints.simps Let_def Float3_Min_def Float3_Max_def Float3.simps BoundingBox.simps) 
qed

lemma GetCorners_nonempty: "GetCorners b \<noteq> []"
  by (simp add: GetCorners_def Let_def)

lemma GetCorners_in_OBB:
  assumes n: "IsNormalized (Orientation (Transformation b))"
    and e: "0 \<le> X (Extents b)" "0 \<le> Y (Extents b)" "0 \<le> Z (Extents b)"
    and c: "c \<in> set (GetCorners b)"
  shows "OBB_Contains b c"
  using c e unfolding GetCorners_def Let_def
  by (auto simp: OBB_Contains_def WorldToLocal_LocalToWorld[OF n])

subsection \<open>The sphere holds the axis-aligned box\<close>

lemma square_le_of_abs_le:
  fixes a b :: real
  assumes "\<bar>a\<bar> \<le> b"
  shows "a * a \<le> b * b"
proof -
  have "\<bar>a\<bar> * \<bar>a\<bar> \<le> b * b" using assms by (intro mult_mono) simp_all
  then show ?thesis by simp
qed

lemma FromBox_contains_box:
  assumes "Box_Contains b p"
  shows "Sphere_Contains (FromBox b) p"
proof -
  define dx where "dx = X (Maximum b) - X (Minimum b)"
  define dy where "dy = Y (Maximum b) - Y (Minimum b)"
  define dz where "dz = Z (Maximum b) - Z (Minimum b)"
  define ux where "ux = X p - (X (Minimum b) + dx * (1 / 2))"
  define uy where "uy = Y p - (Y (Minimum b) + dy * (1 / 2))"
  define uz where "uz = Z p - (Z (Minimum b) + dz * (1 / 2))"
  have b: "X (Minimum b) \<le> X p" "X p \<le> X (Maximum b)" "Y (Minimum b) \<le> Y p" "Y p \<le> Y (Maximum b)"
    "Z (Minimum b) \<le> Z p" "Z p \<le> Z (Maximum b)"
    using assms by (simp_all add: Box_Contains_def)
  have "\<bar>ux\<bar> \<le> dx / 2" using b(1,2) unfolding ux_def dx_def by (simp add: abs_le_iff field_simps)
  then have sx: "ux * ux \<le> (dx / 2) * (dx / 2)" by (rule square_le_of_abs_le)
  have "\<bar>uy\<bar> \<le> dy / 2" using b(3,4) unfolding uy_def dy_def by (simp add: abs_le_iff field_simps)
  then have sy: "uy * uy \<le> (dy / 2) * (dy / 2)" by (rule square_le_of_abs_le)
  have "\<bar>uz\<bar> \<le> dz / 2" using b(5,6) unfolding uz_def dz_def by (simp add: abs_le_iff field_simps)
  then have sz: "uz * uz \<le> (dz / 2) * (dz / 2)" by (rule square_le_of_abs_le)
  have "ux * ux + uy * uy + uz * uz \<le> (dx * dx + dy * dy + dz * dz) / 4"
    using sx sy sz by (simp add: field_simps)
  then have "sqrt (ux * ux + uy * uy + uz * uz) \<le> sqrt ((dx * dx + dy * dy + dz * dz) / 4)"
    by (rule real_sqrt_le_mono)
  also have "\<dots> = sqrt (dx * dx + dy * dy + dz * dz) * (1 / 2)"
  proof -
    have "sqrt 4 = (2::real)" using real_sqrt_abs2[of "2::real"] by simp
    then show ?thesis by (simp add: real_sqrt_divide)
  qed
  finally show ?thesis
    by (simp add: Sphere_Contains_def Distance_def FromBox_def Let_def Float3_sub_def
        Float3_add_def Float3_scale_def ux_def uy_def uz_def dx_def dy_def dz_def)
qed

lemma le_square_of_sqrt_le:
  fixes e r :: real
  assumes "0 \<le> e" "sqrt e \<le> r"
  shows "e \<le> r * r"
proof -
  have "0 \<le> sqrt e" using assms(1) by simp
  moreover have "0 \<le> r" using \<open>0 \<le> sqrt e\<close> assms(2) by linarith
  ultimately have "sqrt e * sqrt e \<le> r * r" using assms(2) by (intro mult_mono) simp_all
  then show ?thesis using assms(1) by simp
qed

lemma parallelogram_term:
  fixes a m c :: real
  shows "(m - a) * (m - a) \<le> 2 * ((a - c) * (a - c)) + 2 * ((m - c) * (m - c))"
proof -
  have "2 * ((a - c) * (a - c)) + 2 * ((m - c) * (m - c)) - (m - a) * (m - a)
      = (a + m - 2 * c) * (a + m - 2 * c)"
    by (simp add: algebra_simps)
  moreover have "0 \<le> (a + m - 2 * c) * (a + m - 2 * c)" by simp
  ultimately show ?thesis by linarith
qed

lemma FromBox_minimal:
  assumes a: "Sphere_Contains s (Minimum b)" and m: "Sphere_Contains s (Maximum b)"
  shows "Radius (FromBox b) \<le> Radius s"
proof -
  define A where "A = (X (Minimum b) - X (Center s)) * (X (Minimum b) - X (Center s))
    + (Y (Minimum b) - Y (Center s)) * (Y (Minimum b) - Y (Center s))
    + (Z (Minimum b) - Z (Center s)) * (Z (Minimum b) - Z (Center s))"
  define M where "M = (X (Maximum b) - X (Center s)) * (X (Maximum b) - X (Center s))
    + (Y (Maximum b) - Y (Center s)) * (Y (Maximum b) - Y (Center s))
    + (Z (Maximum b) - Z (Center s)) * (Z (Maximum b) - Z (Center s))"
  define D where "D = (X (Maximum b) - X (Minimum b)) * (X (Maximum b) - X (Minimum b))
    + (Y (Maximum b) - Y (Minimum b)) * (Y (Maximum b) - Y (Minimum b))
    + (Z (Maximum b) - Z (Minimum b)) * (Z (Maximum b) - Z (Minimum b))"
  define r where "r = Radius s"
  have A0: "0 \<le> A" and M0: "0 \<le> M" and D0: "0 \<le> D" by (simp_all add: A_def M_def D_def)
  have "sqrt A \<le> r" using a by (simp add: Sphere_Contains_def Distance_def Float3_sub_def Let_def A_def r_def)
  then have A1: "A \<le> r * r" by (rule le_square_of_sqrt_le[OF A0])
  have sm: "sqrt M \<le> r" using m by (simp add: Sphere_Contains_def Distance_def Float3_sub_def Let_def M_def r_def)
  then have M1: "M \<le> r * r" by (rule le_square_of_sqrt_le[OF M0])
  have "0 \<le> sqrt M" using M0 by simp
  then have r0: "0 \<le> r" using sm by linarith
  have "D \<le> 2 * A + 2 * M"
  proof -
    have x: "(X (Maximum b) - X (Minimum b)) * (X (Maximum b) - X (Minimum b))
        \<le> 2 * ((X (Minimum b) - X (Center s)) * (X (Minimum b) - X (Center s)))
          + 2 * ((X (Maximum b) - X (Center s)) * (X (Maximum b) - X (Center s)))"
      by (rule parallelogram_term)
    have y: "(Y (Maximum b) - Y (Minimum b)) * (Y (Maximum b) - Y (Minimum b))
        \<le> 2 * ((Y (Minimum b) - Y (Center s)) * (Y (Minimum b) - Y (Center s)))
          + 2 * ((Y (Maximum b) - Y (Center s)) * (Y (Maximum b) - Y (Center s)))"
      by (rule parallelogram_term)
    have z: "(Z (Maximum b) - Z (Minimum b)) * (Z (Maximum b) - Z (Minimum b))
        \<le> 2 * ((Z (Minimum b) - Z (Center s)) * (Z (Minimum b) - Z (Center s)))
          + 2 * ((Z (Maximum b) - Z (Center s)) * (Z (Maximum b) - Z (Center s)))"
      by (rule parallelogram_term)
    have "D \<le> (2 * ((X (Minimum b) - X (Center s)) * (X (Minimum b) - X (Center s)))
          + 2 * ((X (Maximum b) - X (Center s)) * (X (Maximum b) - X (Center s))))
        + (2 * ((Y (Minimum b) - Y (Center s)) * (Y (Minimum b) - Y (Center s)))
          + 2 * ((Y (Maximum b) - Y (Center s)) * (Y (Maximum b) - Y (Center s))))
        + (2 * ((Z (Minimum b) - Z (Center s)) * (Z (Minimum b) - Z (Center s)))
          + 2 * ((Z (Maximum b) - Z (Center s)) * (Z (Maximum b) - Z (Center s))))"
      unfolding D_def by (intro add_mono x y z)
    also have "\<dots> = 2 * A + 2 * M" unfolding A_def M_def by (simp only: distrib_left)
    finally show ?thesis .
  qed
  then have "D \<le> (2 * r) * (2 * r)" using A1 M1 by simp
  then have "sqrt D \<le> sqrt ((2 * r) * (2 * r))" by (rule real_sqrt_le_mono)
  also have "\<dots> = \<bar>2 * r\<bar>" by (rule real_sqrt_abs2)
  also have "\<dots> = 2 * r" using r0 by simp
  finally have "sqrt D * (1 / 2) \<le> r" by simp
  then show ?thesis
    by (simp add: FromBox_def Let_def Float3_sub_def D_def r_def)
qed

subsection \<open>The volumes of the collider\<close>

lemma UpdateBounds_Transformation:
  "Transformation (bc_bounds (UpdateBounds st))
     = \<lparr>Translation = LocalToWorld (bc_transform st) (bc_center st),
        Orientation = Orientation (bc_transform st)\<rparr>"
  by (simp add: UpdateBounds_fields OBB_Transform_def CreateCentered_def Transform_LocalToWorld_def
      Quaternion_Multiply_Identity)

lemma UpdateBounds_Extents: "Extents (bc_bounds (UpdateBounds st)) = bc_size st"
  by (simp add: UpdateBounds_fields OBB_Transform_def CreateCentered_def)

lemma UpdateBounds_WorldToLocal:
  assumes "IsNormalized (Orientation (bc_transform st))"
  shows "WorldToLocal (Transformation (bc_bounds (UpdateBounds st))) p
           = Float3_sub (WorldToLocal (bc_transform st) p) (bc_center st)"
proof -
  let ?q = "Orientation (bc_transform st)"
  let ?t = "Translation (bc_transform st)"
  have "Float3_sub p (Float3_add (Float3_Transform (bc_center st) ?q) ?t)
      = Float3_sub (Float3_sub p ?t) (Float3_Transform (bc_center st) ?q)"
    by (simp add: Float3_sub_def Float3_add_def)
  then show ?thesis
    unfolding UpdateBounds_Transformation
    by (simp add: WorldToLocal_def LocalToWorld_def Float3_Transform_sub
        Float3_Transform_Conjugated_back[OF assms])
qed

lemma example_moved_state:
  "bc_size (with_shape st sz c t) = sz" "bc_center (with_shape st sz c t) = c"
  "bc_transform (with_shape st sz c t) = t"
  by (simp_all add: with_shape_def)

text \<open>
  Claim C7. For every size, centre and world transform (a translation and a rotation, that
  is a unit quaternion), after \<^verbatim>\<open>UpdateBounds\<close> the three cached volumes are volumes of the
  same transformed box, each nested in the next and as tight as its shape allows.
  \<^item> The oriented box is the collider's box: its extents are the size, its centre is the
    collider's centre taken by the world transform, its rotation is the transform's; a point
    is in it exactly when, taken to the collider's space, it is within the size of the centre
    on every axis.
  \<^item> The axis-aligned box holds every point of the oriented box, and every point of the box
    spanned by the 8 corners whatever the signs of the size; each of its six faces passes
    through a corner of the oriented box, and for a size without negative component the
    corners are points of the oriented box.
  \<^item> The sphere holds every point of the axis-aligned box; it is centred at the box's centre,
    its radius is half the box's diagonal, and no sphere that holds the two corners
    \<^verbatim>\<open>Minimum\<close> and \<^verbatim>\<open>Maximum\<close> of the box has a smaller radius.
\<close>

theorem UpdateBounds_volumes_nested:
  assumes "IsNormalized (Orientation (bc_transform st))"
  shows "Extents (bc_bounds (UpdateBounds st)) = bc_size st
       \<and> Transformation (bc_bounds (UpdateBounds st))
           = \<lparr>Translation = LocalToWorld (bc_transform st) (bc_center st),
              Orientation = Orientation (bc_transform st)\<rparr>
       \<and> (\<forall>p. OBB_Contains (bc_bounds (UpdateBounds st)) p \<longleftrightarrow>
              \<bar>X (WorldToLocal (bc_transform st) p) - X (bc_center st)\<bar> \<le> X (bc_size st)
            \<and> \<bar>Y (WorldToLocal (bc_transform st) p) - Y (bc_center st)\<bar> \<le> Y (bc_size st)
            \<and> \<bar>Z (WorldToLocal (bc_transform st) p) - Z (bc_center st)\<bar> \<le> Z (bc_size st))
       \<and> (\<forall>p. OBB_Contains (bc_bounds (UpdateBounds st)) p \<longrightarrow> Box_Contains (bc_box (UpdateBounds st)) p)
       \<and> (\<forall>l. \<bar>X l\<bar> \<le> \<bar>X (bc_size st)\<bar> \<and> \<bar>Y l\<bar> \<le> \<bar>Y (bc_size st)\<bar> \<and> \<bar>Z l\<bar> \<le> \<bar>Z (bc_size st)\<bar> \<longrightarrow>
              Box_Contains (bc_box (UpdateBounds st))
                (LocalToWorld (Transformation (bc_bounds (UpdateBounds st))) l))
       \<and> (\<exists>c \<in> set (GetCorners (bc_bounds (UpdateBounds st))). X c = X (Minimum (bc_box (UpdateBounds st))))
       \<and> (\<exists>c \<in> set (GetCorners (bc_bounds (UpdateBounds st))). X c = X (Maximum (bc_box (UpdateBounds st))))
       \<and> (\<exists>c \<in> set (GetCorners (bc_bounds (UpdateBounds st))). Y c = Y (Minimum (bc_box (UpdateBounds st))))
       \<and> (\<exists>c \<in> set (GetCorners (bc_bounds (UpdateBounds st))). Y c = Y (Maximum (bc_box (UpdateBounds st))))
       \<and> (\<exists>c \<in> set (GetCorners (bc_bounds (UpdateBounds st))). Z c = Z (Minimum (bc_box (UpdateBounds st))))
       \<and> (\<exists>c \<in> set (GetCorners (bc_bounds (UpdateBounds st))). Z c = Z (Maximum (bc_box (UpdateBounds st))))
       \<and> (0 \<le> X (bc_size st) \<and> 0 \<le> Y (bc_size st) \<and> 0 \<le> Z (bc_size st) \<longrightarrow>
            (\<forall>c \<in> set (GetCorners (bc_bounds (UpdateBounds st))). OBB_Contains (bc_bounds (UpdateBounds st)) c))
       \<and> (\<forall>p. Box_Contains (bc_box (UpdateBounds st)) p \<longrightarrow> Sphere_Contains (bc_sphere (UpdateBounds st)) p)
       \<and> Center (bc_sphere (UpdateBounds st))
           = Float3_add (Minimum (bc_box (UpdateBounds st)))
               (Float3_scale (Float3_sub (Maximum (bc_box (UpdateBounds st))) (Minimum (bc_box (UpdateBounds st)))) (1 / 2))
       \<and> Radius (bc_sphere (UpdateBounds st))
           = Distance (Maximum (bc_box (UpdateBounds st))) (Minimum (bc_box (UpdateBounds st))) * (1 / 2)
       \<and> (\<forall>s. Sphere_Contains s (Minimum (bc_box (UpdateBounds st)))
              \<and> Sphere_Contains s (Maximum (bc_box (UpdateBounds st)))
              \<longrightarrow> Radius (bc_sphere (UpdateBounds st)) \<le> Radius s)"
proof -
  let ?b = "bc_bounds (UpdateBounds st)"
  let ?bx = "bc_box (UpdateBounds st)"
  let ?sp = "bc_sphere (UpdateBounds st)"
  have n: "IsNormalized (Orientation (Transformation ?b))"
    by (simp add: UpdateBounds_Orientation assms)
  have bx: "?bx = GetBoundingBox ?b" by (rule UpdateBounds_fields(2))
  have sp: "?sp = FromBox ?bx" by (rule UpdateBounds_fields(3))
  have c1: "Extents ?b = bc_size st" by (rule UpdateBounds_Extents)
  have c2: "Transformation ?b = \<lparr>Translation = LocalToWorld (bc_transform st) (bc_center st),
              Orientation = Orientation (bc_transform st)\<rparr>"
    by (rule UpdateBounds_Transformation)
  have c3: "OBB_Contains ?b p \<longleftrightarrow>
              \<bar>X (WorldToLocal (bc_transform st) p) - X (bc_center st)\<bar> \<le> X (bc_size st)
            \<and> \<bar>Y (WorldToLocal (bc_transform st) p) - Y (bc_center st)\<bar> \<le> Y (bc_size st)
            \<and> \<bar>Z (WorldToLocal (bc_transform st) p) - Z (bc_center st)\<bar> \<le> Z (bc_size st)" for p
    unfolding OBB_Contains_def Let_def UpdateBounds_WorldToLocal[OF assms] c1
    by (simp add: Float3_sub_def)
  have c4: "Box_Contains ?bx p" if "OBB_Contains ?b p" for p
    unfolding bx using n that by (rule GetBoundingBox_contains_OBB)
  have c5: "Box_Contains ?bx (LocalToWorld (Transformation ?b) l)"
    if "\<bar>X l\<bar> \<le> \<bar>X (bc_size st)\<bar> \<and> \<bar>Y l\<bar> \<le> \<bar>Y (bc_size st)\<bar> \<and> \<bar>Z l\<bar> \<le> \<bar>Z (bc_size st)\<bar>" for l
    unfolding bx using that by (intro GetBoundingBox_contains_hull) (simp_all add: c1)
  note c6 = FromPoints_attained[OF GetCorners_nonempty[of ?b], folded GetBoundingBox_def, folded bx]
  have c7: "OBB_Contains ?b c"
    if "0 \<le> X (bc_size st) \<and> 0 \<le> Y (bc_size st) \<and> 0 \<le> Z (bc_size st)" "c \<in> set (GetCorners ?b)" for c
    using that by (intro GetCorners_in_OBB[OF n]) (simp_all add: c1)
  have c8: "Sphere_Contains ?sp p" if "Box_Contains ?bx p" for p
    unfolding sp using that by (rule FromBox_contains_box)
  have c9: "Center ?sp = Float3_add (Minimum ?bx) (Float3_scale (Float3_sub (Maximum ?bx) (Minimum ?bx)) (1 / 2))"
    unfolding sp by (simp add: FromBox_def Let_def)
  have c10: "Radius ?sp = Distance (Maximum ?bx) (Minimum ?bx) * (1 / 2)"
    unfolding sp by (simp add: FromBox_def Distance_def Let_def)
  have c11: "Radius ?sp \<le> Radius s" if "Sphere_Contains s (Minimum ?bx) \<and> Sphere_Contains s (Maximum ?bx)" for s
    unfolding sp using that by (intro FromBox_minimal) simp_all
  show ?thesis
    using c1 c2 c3 c4 c5 c6 c7 c8 c9 c10 c11 by blast
qed

theorem UpdateBounds_volumes_nested_witness:
  "IsNormalized \<lparr>QX = 0, QY = 0, QZ = 3 / 5, QW = 4 / 5\<rparr>
   \<and> bc_box (UpdateBounds (with_shape (example_collider \<lparr>X = 1, Y = 1, Z = 1\<rparr> Transform_Identity)
         \<lparr>X = 2, Y = 4, Z = 6\<rparr> \<lparr>X = 1, Y = 2, Z = 3\<rparr>
         \<lparr>Translation = \<lparr>X = 10, Y = 20, Z = 30\<rparr>, Orientation = \<lparr>QX = 0, QY = 0, QZ = 3 / 5, QW = 4 / 5\<rparr>\<rparr>))
       = \<lparr>Minimum = \<lparr>X = 99 / 25, Y = 462 / 25, Z = 27\<rparr>, Maximum = \<lparr>X = 319 / 25, Y = 614 / 25, Z = 39\<rparr>\<rparr>
   \<and> OBB_Contains (bc_bounds (UpdateBounds (with_shape (example_collider \<lparr>X = 1, Y = 1, Z = 1\<rparr> Transform_Identity)
         \<lparr>X = 2, Y = 4, Z = 6\<rparr> \<lparr>X = 1, Y = 2, Z = 3\<rparr>
         \<lparr>Translation = \<lparr>X = 10, Y = 20, Z = 30\<rparr>, Orientation = \<lparr>QX = 0, QY = 0, QZ = 3 / 5, QW = 4 / 5\<rparr>\<rparr>)))
       \<lparr>X = 9, Y = 21, Z = 35\<rparr>
   \<and> Box_Contains (bc_box (UpdateBounds (with_shape (example_collider \<lparr>X = 1, Y = 1, Z = 1\<rparr> Transform_Identity)
         \<lparr>X = 2, Y = 4, Z = 6\<rparr> \<lparr>X = 1, Y = 2, Z = 3\<rparr>
         \<lparr>Translation = \<lparr>X = 10, Y = 20, Z = 30\<rparr>, Orientation = \<lparr>QX = 0, QY = 0, QZ = 3 / 5, QW = 4 / 5\<rparr>\<rparr>)))
       \<lparr>X = 9, Y = 21, Z = 35\<rparr>
   \<and> Sphere_Contains (bc_sphere (UpdateBounds (with_shape (example_collider \<lparr>X = 1, Y = 1, Z = 1\<rparr> Transform_Identity)
         \<lparr>X = 2, Y = 4, Z = 6\<rparr> \<lparr>X = 1, Y = 2, Z = 3\<rparr>
         \<lparr>Translation = \<lparr>X = 10, Y = 20, Z = 30\<rparr>, Orientation = \<lparr>QX = 0, QY = 0, QZ = 3 / 5, QW = 4 / 5\<rparr>\<rparr>)))
       \<lparr>X = 9, Y = 21, Z = 35\<rparr>"
proof -
  let ?t = "\<lparr>Translation = \<lparr>X = 10, Y = 20, Z = 30\<rparr>, Orientation = \<lparr>QX = 0, QY = 0, QZ = 3 / 5, QW = 4 / 5\<rparr>\<rparr>"
  let ?st = "with_shape (example_collider \<lparr>X = 1, Y = 1, Z = 1\<rparr> Transform_Identity)
         \<lparr>X = 2, Y = 4, Z = 6\<rparr> \<lparr>X = 1, Y = 2, Z = 3\<rparr> ?t"
  let ?p = "\<lparr>X = 9, Y = 21, Z = 35\<rparr>"
  have q: "IsNormalized \<lparr>QX = 0, QY = 0, QZ = 3 / 5, QW = 4 / 5\<rparr>" by (simp add: IsNormalized_def)
  then have n: "IsNormalized (Orientation (bc_transform ?st))" by (simp add: example_moved_state)
  note t = UpdateBounds_volumes_nested[OF n]
  have b: "bc_bounds (UpdateBounds ?st)
      = \<lparr>Extents = \<lparr>X = 2, Y = 4, Z = 6\<rparr>,
         Transformation = \<lparr>Translation = \<lparr>X = 209 / 25, Y = 538 / 25, Z = 33\<rparr>,
                           Orientation = \<lparr>QX = 0, QY = 0, QZ = 3 / 5, QW = 4 / 5\<rparr>\<rparr>\<rparr>"
    unfolding UpdateBounds_fields(1) example_moved_state
    by (simp add: CreateCentered_def OBB_Transform_def transform_defs vec_defs Let_def)
  have bx: "bc_box (UpdateBounds ?st)
      = \<lparr>Minimum = \<lparr>X = 99 / 25, Y = 462 / 25, Z = 27\<rparr>, Maximum = \<lparr>X = 319 / 25, Y = 614 / 25, Z = 39\<rparr>\<rparr>"
    unfolding UpdateBounds_fields(2) b
    by (simp add: GetBoundingBox_def GetCorners_def transform_defs vec_defs Let_def)
  have "WorldToLocal (bc_transform ?st) ?p = \<lparr>X = 17 / 25, Y = 31 / 25, Z = 5\<rparr>"
    unfolding example_moved_state by (simp add: transform_defs vec_defs Let_def)
  then have c: "OBB_Contains (bc_bounds (UpdateBounds ?st)) ?p"
    using t by (simp add: example_moved_state)
  then have d: "Box_Contains (bc_box (UpdateBounds ?st)) ?p" using t by blast
  then have "Sphere_Contains (bc_sphere (UpdateBounds ?st)) ?p" using t by blast
  then show ?thesis using q bx c d by blast
qed


section \<open>The ray test\<close>

subsection \<open>One axis\<close>

lemma le_opt_None: "le_opt t None"
  by (simp add: le_opt_def)

lemma slab_Some_cases:
  assumes "slab p d lo hi ax (tmin, tmax, n) = Some (tmin', tmax', n')"
  shows "(d = 0 \<and> lo \<le> p \<and> p \<le> hi \<and> tmin' = tmin \<and> tmax' = tmax \<and> n' = n)
       \<or> (d \<noteq> 0 \<and>
           tmin' = max (if 0 < d then (lo - p) / d else (hi - p) / d) tmin \<and>
           tmax' = Some (case tmax of None \<Rightarrow> (if 0 < d then (hi - p) / d else (lo - p) / d)
                         | Some f \<Rightarrow> min (if 0 < d then (hi - p) / d else (lo - p) / d) f) \<and>
           n' = (if tmin < (if 0 < d then (lo - p) / d else (hi - p) / d) then Float3_scale ax (- sgn d) else n) \<and>
           \<not> (case tmax of None \<Rightarrow> (if 0 < d then (hi - p) / d else (lo - p) / d)
                         | Some f \<Rightarrow> min (if 0 < d then (hi - p) / d else (lo - p) / d) f) < tmin')"
  using assms unfolding slab_def Let_def
  by (cases "d = 0") (simp_all split: if_splits)

lemma near_le_iff:
  fixes p d lo t :: real
  assumes "d \<noteq> 0"
  shows "(if 0 < d then (lo - p) / d else (hi - p) / d) \<le> t \<longleftrightarrow> (if 0 < d then lo \<le> p + d * t else p + d * t \<le> hi)"
proof (cases "0 < d")
  case True
  then show ?thesis by (simp add: pos_divide_le_eq algebra_simps)
next
  case False
  with assms have "d < 0" by simp
  then show ?thesis by (simp add: neg_divide_le_eq algebra_simps)
qed

lemma le_far_iff:
  fixes p d lo t :: real
  assumes "d \<noteq> 0"
  shows "t \<le> (if 0 < d then (hi - p) / d else (lo - p) / d) \<longleftrightarrow> (if 0 < d then p + d * t \<le> hi else lo \<le> p + d * t)"
proof (cases "0 < d")
  case True
  then show ?thesis by (simp add: pos_le_divide_eq algebra_simps)
next
  case False
  with assms have "d < 0" by simp
  then show ?thesis by (simp add: neg_le_divide_eq algebra_simps)
qed

lemma slab_sound:
  assumes s: "slab p d lo hi ax (tmin, tmax, n) = Some (tmin', tmax', n')"
  shows "tmin \<le> tmin'"
    and "le_opt tmin tmax \<Longrightarrow> le_opt tmin' tmax'"
    and "\<And>t. le_opt t tmax' \<Longrightarrow> le_opt t tmax"
    and "\<And>t. tmin' \<le> t \<Longrightarrow> le_opt t tmax' \<Longrightarrow> lo \<le> p + d * t \<and> p + d * t \<le> hi"
    and "\<And>t. tmin \<le> t \<Longrightarrow> lo \<le> p + d * t \<Longrightarrow> p + d * t \<le> hi \<Longrightarrow> tmin' \<le> t"
proof -
  let ?near = "if 0 < d then (lo - p) / d else (hi - p) / d"
  let ?far = "if 0 < d then (hi - p) / d else (lo - p) / d"
  let ?tm = "case tmax of None \<Rightarrow> ?far | Some f \<Rightarrow> min ?far f"
  consider (zero) "d = 0" "lo \<le> p" "p \<le> hi" "tmin' = tmin" "tmax' = tmax" "n' = n"
    | (nz) "d \<noteq> 0" "tmin' = max ?near tmin" "tmax' = Some ?tm"
        "n' = (if tmin < ?near then Float3_scale ax (- sgn d) else n)" "\<not> ?tm < tmin'"
    using slab_Some_cases[OF s] by blast
  note c = this
  show "tmin \<le> tmin'" by (cases rule: c) simp_all
  show "le_opt tmin' tmax'" if "le_opt tmin tmax"
  proof (cases rule: c)
    case zero
    then show ?thesis using that by simp
  next
    case nz
    have "tmin' \<le> ?tm" using nz(5) by simp
    then show ?thesis unfolding nz(3) le_opt_def by simp
  qed
  show "le_opt t tmax' \<Longrightarrow> le_opt t tmax" for t
    by (cases rule: c) (auto simp: le_opt_def split: option.splits)
  show "lo \<le> p + d * t \<and> p + d * t \<le> hi" if "tmin' \<le> t" "le_opt t tmax'" for t
  proof (cases rule: c)
    case zero
    then show ?thesis by simp
  next
    case nz
    have "?near \<le> t" using nz(2) that(1) by simp
    moreover have "t \<le> ?far" using nz(3) that(2) by (auto simp: le_opt_def split: option.splits)
    ultimately show ?thesis
      using near_le_iff[OF nz(1), of lo p hi t] le_far_iff[OF nz(1), of t hi p lo]
      by (auto split: if_splits)
  qed
  show "tmin' \<le> t" if "tmin \<le> t" "lo \<le> p + d * t" "p + d * t \<le> hi" for t
  proof (cases rule: c)
    case zero
    then show ?thesis using that by simp
  next
    case nz
    have "?near \<le> t" using near_le_iff[OF nz(1), of lo p hi t] that by (auto split: if_splits)
    then show ?thesis using nz(2) that(1) by simp
  qed
qed

lemma slab_complete:
  assumes "tmin \<le> t" "le_opt t tmax" "lo \<le> p + d * t" "p + d * t \<le> hi"
  shows "\<exists>tmin' tmax' n'. slab p d lo hi ax (tmin, tmax, n) = Some (tmin', tmax', n')
           \<and> tmin' \<le> t \<and> le_opt t tmax'"
proof (cases "d = 0")
  case True
  then show ?thesis using assms by (simp add: slab_def)
next
  case False
  let ?near = "if 0 < d then (lo - p) / d else (hi - p) / d"
  let ?far = "if 0 < d then (hi - p) / d else (lo - p) / d"
  let ?tm = "case tmax of None \<Rightarrow> ?far | Some f \<Rightarrow> min ?far f"
  have n: "?near \<le> t" using near_le_iff[OF False, of lo p hi t] assms(3,4) by (auto split: if_splits)
  have f: "t \<le> ?far" using le_far_iff[OF False, of t hi p lo] assms(3,4) by (auto split: if_splits)
  have tm: "t \<le> ?tm" using f assms(2) by (auto simp: le_opt_def split: option.splits)
  have mx: "max ?near tmin \<le> t" using n assms(1) by simp
  have "\<not> ?tm < max ?near tmin" using tm mx by linarith
  then have "slab p d lo hi ax (tmin, tmax, n) =
      Some (max ?near tmin, Some ?tm, if tmin < ?near then Float3_scale ax (- sgn d) else n)"
    using False unfolding slab_def Let_def by simp
  then show ?thesis using mx tm by (simp add: le_opt_def)
qed

subsection \<open>The axis-aligned test\<close>

lemma GetPoint_coords:
  "X (GetPoint r t) = X (Position r) + X (Direction r) * t"
  "Y (GetPoint r t) = Y (Position r) + Y (Direction r) * t"
  "Z (GetPoint r t) = Z (Position r) + Z (Direction r) * t"
  by (simp_all add: GetPoint_def Float3_add_def Float3_scale_def)

lemma RayIntersectsBox_Some_steps:
  assumes "RayIntersectsBox r b = Some (dst, n)"
  shows "\<exists>t1 m1 n1 t2 m2 n2 m3.
     slab (X (Position r)) (X (Direction r)) (X (Minimum b)) (X (Maximum b))
             \<lparr>X = 1, Y = 0, Z = 0\<rparr> (0, None, Float3_splat 0) = Some (t1, m1, n1) \<and>
     slab (Y (Position r)) (Y (Direction r)) (Y (Minimum b)) (Y (Maximum b))
             \<lparr>X = 0, Y = 1, Z = 0\<rparr> (t1, m1, n1) = Some (t2, m2, n2) \<and>
     slab (Z (Position r)) (Z (Direction r)) (Z (Minimum b)) (Z (Maximum b))
             \<lparr>X = 0, Y = 0, Z = 1\<rparr> (t2, m2, n2) = Some (dst, m3, n)"
  using assms unfolding RayIntersectsBox_def
  by (auto split: option.splits)

lemma RayIntersectsBox_sound:
  assumes h: "RayIntersectsBox r b = Some (dst, n)"
  shows "0 \<le> dst"
    and "Box_Contains b (GetPoint r dst)"
    and "\<And>t. 0 \<le> t \<Longrightarrow> Box_Contains b (GetPoint r t) \<Longrightarrow> dst \<le> t"
proof -
  obtain t1 m1 n1 t2 m2 n2 m3 where
    s1: "slab (X (Position r)) (X (Direction r)) (X (Minimum b)) (X (Maximum b))
             \<lparr>X = 1, Y = 0, Z = 0\<rparr> (0, None, Float3_splat 0) = Some (t1, m1, n1)" and
    s2: "slab (Y (Position r)) (Y (Direction r)) (Y (Minimum b)) (Y (Maximum b))
             \<lparr>X = 0, Y = 1, Z = 0\<rparr> (t1, m1, n1) = Some (t2, m2, n2)" and
    s3: "slab (Z (Position r)) (Z (Direction r)) (Z (Minimum b)) (Z (Maximum b))
             \<lparr>X = 0, Y = 0, Z = 1\<rparr> (t2, m2, n2) = Some (dst, m3, n)"
    using RayIntersectsBox_Some_steps[OF h] by blast
  note a1 = slab_sound[OF s1] and a2 = slab_sound[OF s2] and a3 = slab_sound[OF s3]
  have o1: "le_opt t1 m1" by (rule a1(2)) (simp add: le_opt_def)
  have o2: "le_opt t2 m2" by (rule a2(2)[OF o1])
  have o3: "le_opt dst m3" by (rule a3(2)[OF o2])
  have "0 \<le> t1" by (rule a1(1))
  also have "t1 \<le> t2" by (rule a2(1))
  also have "t2 \<le> dst" by (rule a3(1))
  finally show "0 \<le> dst" .
  have "le_opt dst m2" by (rule a3(3)[OF o3])
  then have "le_opt dst m1" by (rule a2(3))
  have "t1 \<le> dst" using \<open>t1 \<le> t2\<close> \<open>t2 \<le> dst\<close> by (rule order_trans)
  have "X (Minimum b) \<le> X (GetPoint r dst) \<and> X (GetPoint r dst) \<le> X (Maximum b)"
    unfolding GetPoint_coords by (rule a1(4)[OF \<open>t1 \<le> dst\<close> \<open>le_opt dst m1\<close>])
  moreover have "Y (Minimum b) \<le> Y (GetPoint r dst) \<and> Y (GetPoint r dst) \<le> Y (Maximum b)"
    unfolding GetPoint_coords by (rule a2(4)[OF \<open>t2 \<le> dst\<close> \<open>le_opt dst m2\<close>])
  moreover have "Z (Minimum b) \<le> Z (GetPoint r dst) \<and> Z (GetPoint r dst) \<le> Z (Maximum b)"
    unfolding GetPoint_coords by (rule a3(4)[OF order_refl o3])
  ultimately show "Box_Contains b (GetPoint r dst)" by (simp add: Box_Contains_def)
  show "dst \<le> t" if "0 \<le> t" "Box_Contains b (GetPoint r t)" for t
  proof -
    have c: "X (Minimum b) \<le> X (Position r) + X (Direction r) * t" "X (Position r) + X (Direction r) * t \<le> X (Maximum b)"
      "Y (Minimum b) \<le> Y (Position r) + Y (Direction r) * t" "Y (Position r) + Y (Direction r) * t \<le> Y (Maximum b)"
      "Z (Minimum b) \<le> Z (Position r) + Z (Direction r) * t" "Z (Position r) + Z (Direction r) * t \<le> Z (Maximum b)"
      using that(2) by (simp_all add: Box_Contains_def GetPoint_coords)
    have "t1 \<le> t" by (rule a1(5)[OF that(1) c(1,2)])
    then have "t2 \<le> t" by (rule a2(5)[OF _ c(3,4)])
    then show ?thesis by (rule a3(5)[OF _ c(5,6)])
  qed
qed

lemma RayIntersectsBox_complete:
  assumes "0 \<le> t" "Box_Contains b (GetPoint r t)"
  shows "RayIntersectsBox r b \<noteq> None"
proof -
  have c: "X (Minimum b) \<le> X (Position r) + X (Direction r) * t" "X (Position r) + X (Direction r) * t \<le> X (Maximum b)"
    "Y (Minimum b) \<le> Y (Position r) + Y (Direction r) * t" "Y (Position r) + Y (Direction r) * t \<le> Y (Maximum b)"
    "Z (Minimum b) \<le> Z (Position r) + Z (Direction r) * t" "Z (Position r) + Z (Direction r) * t \<le> Z (Maximum b)"
    using assms(2) by (simp_all add: Box_Contains_def GetPoint_coords)
  obtain t1 m1 n1 where s1: "slab (X (Position r)) (X (Direction r)) (X (Minimum b)) (X (Maximum b))
             \<lparr>X = 1, Y = 0, Z = 0\<rparr> (0, None, Float3_splat 0) = Some (t1, m1, n1)" "t1 \<le> t" "le_opt t m1"
    using slab_complete[OF assms(1) le_opt_None c(1,2)] by blast
  obtain t2 m2 n2 where s2: "slab (Y (Position r)) (Y (Direction r)) (Y (Minimum b)) (Y (Maximum b))
             \<lparr>X = 0, Y = 1, Z = 0\<rparr> (t1, m1, n1) = Some (t2, m2, n2)" "t2 \<le> t" "le_opt t m2"
    using slab_complete[OF s1(2,3) c(3,4)] by blast
  obtain t3 m3 n3 where s3: "slab (Z (Position r)) (Z (Direction r)) (Z (Minimum b)) (Z (Maximum b))
             \<lparr>X = 0, Y = 0, Z = 1\<rparr> (t2, m2, n2) = Some (t3, m3, n3)"
    using slab_complete[OF s2(2,3) c(5,6)] by blast
  show ?thesis unfolding RayIntersectsBox_def using s1(1) s2(1) s3 by simp
qed

subsection \<open>The oriented test\<close>

lemma WorldToLocal_GetPoint:
  "WorldToLocal T (GetPoint r t) =
     GetPoint \<lparr>Position = WorldToLocal T (Position r), Direction = WorldToLocalVector T (Direction r)\<rparr> t"
  by (simp add: WorldToLocal_def WorldToLocalVector_def GetPoint_def Float3_Transform_def
      Float3_add_def Float3_sub_def Float3_scale_def Let_def algebra_simps)

lemma OBB_Contains_iff_local:
  "OBB_Contains b p \<longleftrightarrow>
     Box_Contains \<lparr>Minimum = Float3_neg (Extents b), Maximum = Extents b\<rparr> (WorldToLocal (Transformation b) p)"
  by (auto simp: OBB_Contains_def Box_Contains_def Float3_neg_def Let_def abs_le_iff)

lemma OBB_Intersects_Some:
  assumes "OBB_Intersects b r = Some (dst, n)"
  shows "\<exists>ln. RayIntersectsBox \<lparr>Position = WorldToLocal (Transformation b) (Position r),
                  Direction = WorldToLocalVector (Transformation b) (Direction r)\<rparr>
                \<lparr>Minimum = Float3_neg (Extents b), Maximum = Extents b\<rparr> = Some (dst, ln)
            \<and> n = LocalToWorldVector (Transformation b) ln"
  using assms unfolding OBB_Intersects_def Let_def by (auto split: option.splits)

lemma OBB_Intersects_sound:
  assumes h: "OBB_Intersects b r = Some (dst, n)"
  shows "0 \<le> dst"
    and "OBB_Contains b (GetPoint r dst)"
    and "\<And>t. 0 \<le> t \<Longrightarrow> OBB_Contains b (GetPoint r t) \<Longrightarrow> dst \<le> t"
proof -
  let ?T = "Transformation b"
  let ?r = "\<lparr>Position = WorldToLocal ?T (Position r), Direction = WorldToLocalVector ?T (Direction r)\<rparr>"
  let ?bb = "\<lparr>Minimum = Float3_neg (Extents b), Maximum = Extents b\<rparr>"
  obtain ln where l: "RayIntersectsBox ?r ?bb = Some (dst, ln)" and n: "n = LocalToWorldVector ?T ln"
    using OBB_Intersects_Some[OF h] by blast
  note s = RayIntersectsBox_sound[OF l]
  show "0 \<le> dst" by (rule s(1))
  show "OBB_Contains b (GetPoint r dst)"
    unfolding OBB_Contains_iff_local WorldToLocal_GetPoint by (rule s(2))
  show "dst \<le> t" if "0 \<le> t" "OBB_Contains b (GetPoint r t)" for t
    using that(2) unfolding OBB_Contains_iff_local WorldToLocal_GetPoint by (rule s(3)[OF that(1)])
qed

lemma OBB_Intersects_complete:
  assumes "0 \<le> t" "OBB_Contains b (GetPoint r t)"
  shows "OBB_Intersects b r \<noteq> None"
proof -
  have "RayIntersectsBox \<lparr>Position = WorldToLocal (Transformation b) (Position r),
                  Direction = WorldToLocalVector (Transformation b) (Direction r)\<rparr>
                \<lparr>Minimum = Float3_neg (Extents b), Maximum = Extents b\<rparr> \<noteq> None"
    using assms(2) unfolding OBB_Contains_iff_local WorldToLocal_GetPoint
    by (rule RayIntersectsBox_complete[OF assms(1)])
  then show ?thesis unfolding OBB_Intersects_def Let_def by (auto split: option.splits)
qed

lemma example_cube_bounds:
  "bc_bounds (example_collider \<lparr>X = 2, Y = 2, Z = 2\<rparr> Transform_Identity)
     = \<lparr>Extents = \<lparr>X = 2, Y = 2, Z = 2\<rparr>, Transformation = Transform_Identity\<rparr>"
  unfolding example_collider_def UpdateBounds_fields(1)
  by (simp add: CreateCentered_def OBB_Transform_def transform_defs vec_defs Let_def)

lemma example_rotated_bounds:
  "bc_bounds (example_collider \<lparr>X = 2, Y = 2, Z = 2\<rparr>
       \<lparr>Translation = \<lparr>X = 0, Y = 0, Z = 0\<rparr>, Orientation = \<lparr>QX = 0, QY = 0, QZ = 3 / 5, QW = 4 / 5\<rparr>\<rparr>)
     = \<lparr>Extents = \<lparr>X = 2, Y = 2, Z = 2\<rparr>,
        Transformation = \<lparr>Translation = \<lparr>X = 0, Y = 0, Z = 0\<rparr>,
                          Orientation = \<lparr>QX = 0, QY = 0, QZ = 3 / 5, QW = 4 / 5\<rparr>\<rparr>\<rparr>"
  unfolding example_collider_def UpdateBounds_fields(1)
  by (simp add: CreateCentered_def OBB_Transform_def transform_defs vec_defs Let_def)

lemma example_rotated_box:
  "bc_box (example_collider \<lparr>X = 2, Y = 2, Z = 2\<rparr>
       \<lparr>Translation = \<lparr>X = 0, Y = 0, Z = 0\<rparr>, Orientation = \<lparr>QX = 0, QY = 0, QZ = 3 / 5, QW = 4 / 5\<rparr>\<rparr>)
     = \<lparr>Minimum = \<lparr>X = - (62 / 25), Y = - (62 / 25), Z = - 2\<rparr>,
        Maximum = \<lparr>X = 62 / 25, Y = 62 / 25, Z = 2\<rparr>\<rparr>"
proof -
  have "bc_box (example_collider \<lparr>X = 2, Y = 2, Z = 2\<rparr>
       \<lparr>Translation = \<lparr>X = 0, Y = 0, Z = 0\<rparr>, Orientation = \<lparr>QX = 0, QY = 0, QZ = 3 / 5, QW = 4 / 5\<rparr>\<rparr>)
     = GetBoundingBox (bc_bounds (example_collider \<lparr>X = 2, Y = 2, Z = 2\<rparr>
       \<lparr>Translation = \<lparr>X = 0, Y = 0, Z = 0\<rparr>, Orientation = \<lparr>QX = 0, QY = 0, QZ = 3 / 5, QW = 4 / 5\<rparr>\<rparr>))"
    unfolding example_collider_def UpdateBounds_fields(2) ..
  then show ?thesis
    unfolding example_rotated_bounds
    by (simp add: GetBoundingBox_def GetCorners_def transform_defs vec_defs Let_def)
qed

text \<open>
  Claim C8. A ray no point of which lies in the collider's oriented box gets the result
  "no hit", and only such a ray does. The result is a value for every ray: a miss is the
  value \<open>None\<close>, which carries neither distance nor normal, and there is no other outcome
  than a hit or a miss.
\<close>

theorem IntersectsItself_miss:
  "IntersectsItself st r = None \<longleftrightarrow> (\<forall>t\<ge>0. \<not> OBB_Contains (bc_bounds st) (GetPoint r t))"
proof
  assume none: "IntersectsItself st r = None"
  show "\<forall>t\<ge>0. \<not> OBB_Contains (bc_bounds st) (GetPoint r t)"
  proof (intro allI impI notI)
    fix t :: real
    assume "0 \<le> t" "OBB_Contains (bc_bounds st) (GetPoint r t)"
    then have "OBB_Intersects (bc_bounds st) r \<noteq> None" by (rule OBB_Intersects_complete)
    then show False using none by (simp add: IntersectsItself_def)
  qed
next
  assume miss: "\<forall>t\<ge>0. \<not> OBB_Contains (bc_bounds st) (GetPoint r t)"
  show "IntersectsItself st r = None"
  proof (cases "IntersectsItself st r")
    case None
    then show ?thesis .
  next
    case (Some a)
    obtain d n where "a = (d, n)" by (cases a)
    then have h: "OBB_Intersects (bc_bounds st) r = Some (d, n)"
      using Some by (simp add: IntersectsItself_def)
    have "0 \<le> d" "OBB_Contains (bc_bounds st) (GetPoint r d)"
      by (rule OBB_Intersects_sound(1)[OF h], rule OBB_Intersects_sound(2)[OF h])
    then show ?thesis using miss by blast
  qed
qed

theorem IntersectsItself_miss_witness:
  "\<not> (\<exists>t. 0 \<le> t \<and> OBB_Contains (bc_bounds (example_collider \<lparr>X = 2, Y = 2, Z = 2\<rparr> Transform_Identity))
        (GetPoint \<lparr>Position = \<lparr>X = 3, Y = 0, Z = - 5\<rparr>, Direction = \<lparr>X = 0, Y = 0, Z = 1\<rparr>\<rparr> t))
   \<and> IntersectsItself (example_collider \<lparr>X = 2, Y = 2, Z = 2\<rparr> Transform_Identity)
       \<lparr>Position = \<lparr>X = 3, Y = 0, Z = - 5\<rparr>, Direction = \<lparr>X = 0, Y = 0, Z = 1\<rparr>\<rparr> = None
   \<and> IntersectsItself (example_collider \<lparr>X = 2, Y = 2, Z = 2\<rparr> Transform_Identity)
       \<lparr>Position = \<lparr>X = 1, Y = 0, Z = - 5\<rparr>, Direction = \<lparr>X = 0, Y = 0, Z = 1\<rparr>\<rparr> \<noteq> None"
proof -
  let ?c = "example_collider \<lparr>X = 2, Y = 2, Z = 2\<rparr> Transform_Identity"
  let ?r = "\<lparr>Position = \<lparr>X = 3, Y = 0, Z = - 5\<rparr>, Direction = \<lparr>X = 0, Y = 0, Z = 1\<rparr>\<rparr>"
  let ?r' = "\<lparr>Position = \<lparr>X = 1, Y = 0, Z = - 5\<rparr>, Direction = \<lparr>X = 0, Y = 0, Z = 1\<rparr>\<rparr>"
  have h: "\<forall>t\<ge>0. \<not> OBB_Contains (bc_bounds ?c) (GetPoint ?r t)"
    unfolding example_cube_bounds
    by (simp add: OBB_Contains_def GetPoint_def transform_defs vec_defs Let_def)
  then have a: "IntersectsItself ?c ?r = None" using IntersectsItself_miss[of ?c ?r] by blast
  have "OBB_Contains (bc_bounds ?c) (GetPoint ?r' 5)"
    unfolding example_cube_bounds
    by (simp add: OBB_Contains_def GetPoint_def transform_defs vec_defs Let_def)
  then have "\<not> (\<forall>t\<ge>0. \<not> OBB_Contains (bc_bounds ?c) (GetPoint ?r' t))"
    by (metis zero_le_numeral)
  then have b: "IntersectsItself ?c ?r' \<noteq> None" using IntersectsItself_miss[of ?c ?r'] by blast
  show ?thesis using h a b by blast
qed

text \<open>
  Claim C9. \<^verbatim>\<open>IntersectsItself\<close> tests the ray against the cached oriented box \<^verbatim>\<open>_bounds\<close>,
  not against the axis-aligned box: its result is that of the oriented box's test on
  \<^verbatim>\<open>_bounds\<close> and does not depend on \<^verbatim>\<open>_box\<close>; it reports a hit exactly when some point of
  the ray lies in the oriented box, and the distance of a hit is the parameter of the first
  such point. So a ray can meet the axis-aligned box of a rotated collider and miss: for the
  cube of size \<open>(2,2,2)\<close> rotated about the z axis by the unit quaternion \<open>(0, 0, 3/5, 4/5)\<close>,
  the ray from \<open>(12/5, 12/5, -5)\<close> along \<open>(0,0,1)\<close> passes through the axis-aligned box and the
  result is "no hit".
\<close>

theorem IntersectsItself_oriented_box:
  "IntersectsItself st r = OBB_Intersects (bc_bounds st) r
   \<and> IntersectsItself (st\<lparr>bc_box := b\<rparr>) r = IntersectsItself st r
   \<and> (IntersectsItself st r \<noteq> None \<longleftrightarrow> (\<exists>t\<ge>0. OBB_Contains (bc_bounds st) (GetPoint r t)))
   \<and> (\<forall>d n. IntersectsItself st r = Some (d, n) \<longrightarrow>
         0 \<le> d \<and> OBB_Contains (bc_bounds st) (GetPoint r d)
         \<and> (\<forall>t. 0 \<le> t \<and> OBB_Contains (bc_bounds st) (GetPoint r t) \<longrightarrow> d \<le> t))
   \<and> IsNormalized \<lparr>QX = 0, QY = 0, QZ = 3 / 5, QW = 4 / 5\<rparr>
   \<and> Box_Contains (bc_box (example_collider \<lparr>X = 2, Y = 2, Z = 2\<rparr>
         \<lparr>Translation = \<lparr>X = 0, Y = 0, Z = 0\<rparr>, Orientation = \<lparr>QX = 0, QY = 0, QZ = 3 / 5, QW = 4 / 5\<rparr>\<rparr>))
       (GetPoint \<lparr>Position = \<lparr>X = 12 / 5, Y = 12 / 5, Z = - 5\<rparr>, Direction = \<lparr>X = 0, Y = 0, Z = 1\<rparr>\<rparr> 5)
   \<and> IntersectsItself (example_collider \<lparr>X = 2, Y = 2, Z = 2\<rparr>
         \<lparr>Translation = \<lparr>X = 0, Y = 0, Z = 0\<rparr>, Orientation = \<lparr>QX = 0, QY = 0, QZ = 3 / 5, QW = 4 / 5\<rparr>\<rparr>)
       \<lparr>Position = \<lparr>X = 12 / 5, Y = 12 / 5, Z = - 5\<rparr>, Direction = \<lparr>X = 0, Y = 0, Z = 1\<rparr>\<rparr> = None"
proof (intro conjI allI impI)
  show "IntersectsItself st r = OBB_Intersects (bc_bounds st) r" by (simp add: IntersectsItself_def)
  show "IntersectsItself (st\<lparr>bc_box := b\<rparr>) r = IntersectsItself st r" by (simp add: IntersectsItself_def)
  show "IntersectsItself st r \<noteq> None \<longleftrightarrow> (\<exists>t\<ge>0. OBB_Contains (bc_bounds st) (GetPoint r t))"
  proof
    assume "IntersectsItself st r \<noteq> None"
    then obtain d n where h: "OBB_Intersects (bc_bounds st) r = Some (d, n)"
      by (auto simp: IntersectsItself_def)
    have "0 \<le> d" "OBB_Contains (bc_bounds st) (GetPoint r d)"
      by (rule OBB_Intersects_sound(1)[OF h], rule OBB_Intersects_sound(2)[OF h])
    then show "\<exists>t\<ge>0. OBB_Contains (bc_bounds st) (GetPoint r t)" by blast
  next
    assume "\<exists>t\<ge>0. OBB_Contains (bc_bounds st) (GetPoint r t)"
    then show "IntersectsItself st r \<noteq> None"
      unfolding IntersectsItself_def using OBB_Intersects_complete by blast
  qed
  show "IsNormalized \<lparr>QX = 0, QY = 0, QZ = 3 / 5, QW = 4 / 5\<rparr>" by (simp add: IsNormalized_def)
  show "Box_Contains (bc_box (example_collider \<lparr>X = 2, Y = 2, Z = 2\<rparr>
         \<lparr>Translation = \<lparr>X = 0, Y = 0, Z = 0\<rparr>, Orientation = \<lparr>QX = 0, QY = 0, QZ = 3 / 5, QW = 4 / 5\<rparr>\<rparr>))
       (GetPoint \<lparr>Position = \<lparr>X = 12 / 5, Y = 12 / 5, Z = - 5\<rparr>, Direction = \<lparr>X = 0, Y = 0, Z = 1\<rparr>\<rparr> 5)"
    unfolding example_rotated_box by (simp add: Box_Contains_def GetPoint_def vec_defs)
  show "IntersectsItself (example_collider \<lparr>X = 2, Y = 2, Z = 2\<rparr>
         \<lparr>Translation = \<lparr>X = 0, Y = 0, Z = 0\<rparr>, Orientation = \<lparr>QX = 0, QY = 0, QZ = 3 / 5, QW = 4 / 5\<rparr>\<rparr>)
       \<lparr>Position = \<lparr>X = 12 / 5, Y = 12 / 5, Z = - 5\<rparr>, Direction = \<lparr>X = 0, Y = 0, Z = 1\<rparr>\<rparr> = None"
    unfolding IntersectsItself_def example_rotated_bounds
    by (simp add: OBB_Intersects_def RayIntersectsBox_def slab_def transform_defs vec_defs Let_def)
next
  fix d n
  assume "IntersectsItself st r = Some (d, n)"
  then have h: "OBB_Intersects (bc_bounds st) r = Some (d, n)" by (simp add: IntersectsItself_def)
  show "0 \<le> d" by (rule OBB_Intersects_sound(1)[OF h])
  show "OBB_Contains (bc_bounds st) (GetPoint r d)" by (rule OBB_Intersects_sound(2)[OF h])
  show "d \<le> t" if "0 \<le> t \<and> OBB_Contains (bc_bounds st) (GetPoint r t)" for t
    using OBB_Intersects_sound(3)[OF h] that by blast
qed

theorem IntersectsItself_oriented_box_witness:
  "IntersectsItself (example_collider \<lparr>X = 2, Y = 2, Z = 2\<rparr> Transform_Identity)
       \<lparr>Position = \<lparr>X = 0, Y = 0, Z = - 5\<rparr>, Direction = \<lparr>X = 0, Y = 0, Z = 1\<rparr>\<rparr>
     = Some (3, \<lparr>X = 0, Y = 0, Z = - 1\<rparr>)
   \<and> OBB_Contains (bc_bounds (example_collider \<lparr>X = 2, Y = 2, Z = 2\<rparr> Transform_Identity))
        (GetPoint \<lparr>Position = \<lparr>X = 0, Y = 0, Z = - 5\<rparr>, Direction = \<lparr>X = 0, Y = 0, Z = 1\<rparr>\<rparr> 3)"
proof -
  let ?c = "example_collider \<lparr>X = 2, Y = 2, Z = 2\<rparr> Transform_Identity"
  let ?r = "\<lparr>Position = \<lparr>X = 0, Y = 0, Z = - 5\<rparr>, Direction = \<lparr>X = 0, Y = 0, Z = 1\<rparr>\<rparr>"
  have h: "IntersectsItself ?c ?r = Some (3, \<lparr>X = 0, Y = 0, Z = - 1\<rparr>)"
    unfolding IntersectsItself_def example_cube_bounds
    by (simp add: OBB_Intersects_def RayIntersectsBox_def slab_def transform_defs vec_defs Let_def)
  have "\<forall>d n. IntersectsItself ?c ?r = Some (d, n) \<longrightarrow>
         0 \<le> d \<and> OBB_Contains (bc_bounds ?c) (GetPoint ?r d)
         \<and> (\<forall>t. 0 \<le> t \<and> OBB_Contains (bc_bounds ?c) (GetPoint ?r t) \<longrightarrow> d \<le> t)"
    using IntersectsItself_oriented_box[of ?c ?r] by blast
  then have "OBB_Contains (bc_bounds ?c) (GetPoint ?r 3)" using h by blast
  then show ?thesis using h by simp
qed

end
